theory Spec2Isabelle
  imports Main
begin

section \<open>Form values\<close>

text \<open>
  The views of \<^verbatim>\<open>src/app.py\<close> read every input from \<^verbatim>\<open>request.form\<close>, a dictionary
  of strings. The model covers ASCII text: \<^verbatim>\<open>str.strip()\<close> removes the ASCII white space
  characters from both ends and \<^verbatim>\<open>str.lower()\<close> maps \<^verbatim>\<open>A-Z\<close> to \<^verbatim>\<open>a-z\<close>; text with
  other code points is outside the model.
\<close>

type_synonym form = "string \<Rightarrow> string option"

definition py_isspace :: "char \<Rightarrow> bool" where
  "py_isspace c = (c \<in> set [CHR 0x09, CHR 0x0A, CHR 0x0B, CHR 0x0C, CHR 0x0D,
                             CHR 0x1C, CHR 0x1D, CHR 0x1E, CHR 0x1F, CHR 0x20])"

definition py_strip :: "string \<Rightarrow> string" where
  "py_strip s = rev (dropWhile py_isspace (rev (dropWhile py_isspace s)))"

definition py_lower_char :: "char \<Rightarrow> char" where
  "py_lower_char c =
     (let n = (of_char c :: nat)
      in if 65 \<le> n \<and> n \<le> 90 then char_of (n + 32) else c)"

definition py_lower :: "string \<Rightarrow> string" where
  "py_lower s = map py_lower_char s"

text \<open>\<^verbatim>\<open>request.form.get(key, default)\<close> and \<^verbatim>\<open>request.form.get(key)\<close> (default \<^verbatim>\<open>None\<close>).\<close>

definition form_get :: "form \<Rightarrow> string \<Rightarrow> string \<Rightarrow> string" where
  "form_get f k d = (case f k of None \<Rightarrow> d | Some v \<Rightarrow> v)"

text \<open>
  \<^verbatim>\<open>int(s)\<close> on a string: white space around, an optional sign, then decimal digits with
  single underscores allowed between digits. \<^verbatim>\<open>None\<close> stands for the \<^verbatim>\<open>ValueError\<close>.
\<close>

definition digit_val :: "char \<Rightarrow> int option" where
  "digit_val c =
     (let n = (of_char c :: nat)
      in if 48 \<le> n \<and> n \<le> 57 then Some (int n - 48) else None)"

fun py_digits :: "int \<Rightarrow> string \<Rightarrow> int option" where
  "py_digits acc [] = Some acc"
| "py_digits acc [c] =
     (case digit_val c of None \<Rightarrow> None | Some v \<Rightarrow> Some (10 * acc + v))"
| "py_digits acc (c # d # ds) =
     (if c = CHR ''_''
      then (case digit_val d of None \<Rightarrow> None | Some v \<Rightarrow> py_digits (10 * acc + v) ds)
      else (case digit_val c of None \<Rightarrow> None | Some v \<Rightarrow> py_digits (10 * acc + v) (d # ds)))"

definition py_unsigned :: "string \<Rightarrow> int option" where
  "py_unsigned s =
     (case s of [] \<Rightarrow> None
      | c # cs \<Rightarrow> (case digit_val c of None \<Rightarrow> None | Some v \<Rightarrow> py_digits v cs))"

definition py_int :: "string \<Rightarrow> int option" where
  "py_int s =
     (case py_strip s of [] \<Rightarrow> None
      | c # cs \<Rightarrow>
          if c = CHR ''-'' then map_option uminus (py_unsigned cs)
          else if c = CHR ''+'' then py_unsigned cs
          else py_unsigned (c # cs))"

text \<open>\<^verbatim>\<open>int(x)\<close> on a form value that may be \<^verbatim>\<open>None\<close> (a \<^verbatim>\<open>TypeError\<close> then).\<close>

definition int_of_field :: "string option \<Rightarrow> int option" where
  "int_of_field x = (case x of None \<Rightarrow> None | Some s \<Rightarrow> py_int s)"

text \<open>\<^verbatim>\<open>request.form.get(key, type=int)\<close>: the default \<^verbatim>\<open>None\<close> when the conversion raises.\<close>

definition form_get_int :: "form \<Rightarrow> string \<Rightarrow> int option" where
  "form_get_int f k = int_of_field (f k)"

text \<open>Python truth values of an optional string and of an optional integer.\<close>

definition str_truthy :: "string option \<Rightarrow> bool" where
  "str_truthy x = (case x of None \<Rightarrow> False | Some s \<Rightarrow> s \<noteq> [])"

definition int_truthy :: "int option \<Rightarrow> bool" where
  "int_truthy x = (case x of None \<Rightarrow> False | Some i \<Rightarrow> i \<noteq> 0)"

text \<open>\<^verbatim>\<open>request.form.get(key) or None\<close>.\<close>

definition or_none :: "string option \<Rightarrow> string option" where
  "or_none x = (if str_truthy x then x else None)"

text \<open>\<^verbatim>\<open>int(x) if x else None\<close>; the outer \<^verbatim>\<open>None\<close> is the \<^verbatim>\<open>ValueError\<close>.\<close>

definition int_if_set :: "string option \<Rightarrow> int option option" where
  "int_if_set x = (if str_truthy x then map_option Some (int_of_field x) else Some None)"

section \<open>Data model\<close>

text \<open>
  One record per model class of \<^verbatim>\<open>src/app.py\<close>; a nullable column is an option.
  Dates and times are integers (a day number, a clock reading).
\<close>

record user =
  user_id :: int
  user_name :: string
  user_email :: string
  user_password_hash :: string
  user_role :: string
  user_active :: bool

record event =
  event_id :: int
  event_name :: string
  event_date_start :: int
  event_date_end :: int
  event_location :: "string option"

record session =
  session_id :: int
  session_event_id :: int
  session_label :: string
  session_date :: int
  session_time_block :: "string option"

record package =
  package_id :: int
  package_name :: string
  package_description :: "string option"

record athlete =
  athlete_id :: int
  athlete_name :: string
  athlete_team :: "string option"
  athlete_weight_class :: "string option"
  athlete_notes :: "string option"

record athlete_session =
  as_id :: int
  as_athlete_id :: int
  as_session_id :: int
  as_package_id :: int
  as_music_link :: "string option"
  as_music_start :: "string option"
  as_music_end :: "string option"
  as_paid :: bool
  as_notes :: "string option"

record sd_card =
  card_id :: int
  card_label :: string
  card_capacity_gb :: "int option"
  card_status :: string

record sd_card_log =
  log_id :: int
  log_sd_card_id :: int
  log_user_id :: int
  log_event_id :: "int option"
  log_session_id :: "int option"
  log_purpose :: "string option"
  log_checked_out_at :: int
  log_returned_at :: "int option"

record manpower_allocation =
  ma_id :: int
  ma_event_id :: int
  ma_session_id :: int
  ma_user_id :: int
  ma_role :: string
  ma_notes :: "string option"

record edit_task =
  task_id :: int
  task_athlete_session_id :: int
  task_assigned_to_user_id :: int
  task_type :: string
  task_status :: string
  task_deliverable_link :: "string option"
  task_updated_at :: int

text \<open>The data store: one list of rows per table, in insertion order.\<close>

record db =
  users :: "user list"
  events :: "event list"
  sessions :: "session list"
  packages :: "package list"
  athletes :: "athlete list"
  athlete_sessions :: "athlete_session list"
  sd_cards :: "sd_card list"
  sd_card_logs :: "sd_card_log list"
  manpower_allocations :: "manpower_allocation list"
  edit_tasks :: "edit_task list"

text \<open>The primary key of an inserted row: one more than the largest key of the table.\<close>

definition fresh_id :: "int list \<Rightarrow> int" where
  "fresh_id ids = 1 + fold max ids 0"

text \<open>
  What the views receive from outside \<^verbatim>\<open>src/\<close>: the clock (\<^verbatim>\<open>datetime.utcnow()\<close>), the
  integer the database reads from a text key passed to \<^verbatim>\<open>Query.get\<close> (a text that is no
  integer finds no row), werkzeug's password hashing, and \<^verbatim>\<open>strptime(s, "%Y-%m-%d")\<close>.
\<close>

record env =
  now :: int
  pk_of_text :: "string \<Rightarrow> int option"
  generate_password_hash :: "string \<Rightarrow> string"
  check_password_hash :: "string \<Rightarrow> string \<Rightarrow> bool"
  strptime_ymd :: "string \<Rightarrow> int option"

record request =
  http_method :: string
  form :: form

text \<open>
  What a view answers: a redirect to a view, a rendered template, \<^verbatim>\<open>abort(code)\<close>, or an
  uncaught exception (the pending transaction is rolled back). With it come the flashed
  messages (text, category) and the data store after the request.
\<close>

datatype response = Redirect string | Render string | Abort nat | ServerError

type_synonym flash = "string \<times> string"
type_synonym outcome = "response \<times> flash list \<times> db"

text \<open>
  SQLite holds an integer in 64 bits, signed. A Python integer outside that range cannot be
  bound to a statement (\<^verbatim>\<open>OverflowError\<close>): a lookup by such a key raises, and so does the
  commit of a row that carries one.
\<close>

definition in_int64 :: "int \<Rightarrow> bool" where
  "in_int64 i = (- (2 ^ 63) \<le> i \<and> i < 2 ^ 63)"

definition opt_in_int64 :: "int option \<Rightarrow> bool" where
  "opt_in_int64 x = (case x of None \<Rightarrow> True | Some i \<Rightarrow> in_int64 i)"

datatype error = OverflowError

text \<open>
  \<^verbatim>\<open>Model.query.get(key)\<close> with an integer key or \<^verbatim>\<open>None\<close>: the row, no row, or the
  exception (\<^verbatim>\<open>Inl\<close>). With a text key the key is bound as text, which the store
  compares with the primary key through its integer reading: nothing raises.
\<close>

definition query_get :: "('r \<Rightarrow> int) \<Rightarrow> 'r list \<Rightarrow> int option \<Rightarrow> error + 'r option" where
  "query_get pk rows key =
     (case key of
        None \<Rightarrow> Inr None
      | Some i \<Rightarrow> if in_int64 i then Inr (find (\<lambda>r. pk r = i) rows) else Inl OverflowError)"

definition query_get_text :: "env \<Rightarrow> ('r \<Rightarrow> int) \<Rightarrow> 'r list \<Rightarrow> string option \<Rightarrow> 'r option" where
  "query_get_text e pk rows key =
     (case key of
        None \<Rightarrow> None
      | Some s \<Rightarrow> (case pk_of_text e s of None \<Rightarrow> None | Some i \<Rightarrow> find (\<lambda>r. pk r = i) rows))"

section \<open>Access control\<close>

text \<open>
  \<^verbatim>\<open>login_required\<close> of flask-login with \<^verbatim>\<open>login_view = "login"\<close>, and
  \<^verbatim>\<open>founder_required\<close> of \<^verbatim>\<open>src/app.py\<close>. The current user is \<^verbatim>\<open>None\<close> when anonymous.
\<close>

definition login_required :: "(user \<Rightarrow> db \<Rightarrow> outcome) \<Rightarrow> user option \<Rightarrow> db \<Rightarrow> outcome" where
  "login_required view_func current_user d =
     (case current_user of
        None \<Rightarrow> (Redirect ''login'', [(''Please log in to access this page.'', ''message'')], d)
      | Some u \<Rightarrow> view_func u d)"

definition founder_required :: "(user \<Rightarrow> db \<Rightarrow> outcome) \<Rightarrow> user option \<Rightarrow> db \<Rightarrow> outcome" where
  "founder_required view_func current_user d =
     (case current_user of
        None \<Rightarrow> (Abort 403, [], d)
      | Some u \<Rightarrow> if user_role u \<noteq> ''founder'' then (Abort 403, [], d) else view_func u d)"

section \<open>SD cards\<close>

definition set_card_status :: "int \<Rightarrow> string \<Rightarrow> sd_card list \<Rightarrow> sd_card list" where
  "set_card_status i s cs = map (\<lambda>c. if card_id c = i then c\<lparr>card_status := s\<rparr> else c) cs"

definition set_log_returned :: "int \<Rightarrow> int \<Rightarrow> sd_card_log list \<Rightarrow> sd_card_log list" where
  "set_log_returned i t ls =
     map (\<lambda>l. if log_id l = i then l\<lparr>log_returned_at := Some t\<rparr> else l) ls"

definition add_card :: "user \<Rightarrow> request \<Rightarrow> db \<Rightarrow> outcome" where
  "add_card current_user req d =
     (let label = py_strip (form_get (form req) ''label'' '''');
          capacity_gb = py_strip (form_get (form req) ''capacity_gb'' '''')
      in if label \<noteq> []
         then (case (if capacity_gb \<noteq> [] then map_option Some (py_int capacity_gb) else Some None) of
                 None \<Rightarrow> (ServerError, [], d)
               | Some cap \<Rightarrow>
                   if label \<in> set (map card_label (sd_cards d)) \<or> \<not> opt_in_int64 cap
                   then (ServerError, [], d)
                   else (Redirect ''sd_cards_view'', [(''SD card added'', ''success'')],
                         d\<lparr>sd_cards := sd_cards d @
                              [\<lparr>card_id = fresh_id (map card_id (sd_cards d)),
                                card_label = label, card_capacity_gb = cap,
                                card_status = ''available''\<rparr>]\<rparr>))
         else (Redirect ''sd_cards_view'', [(''Label is required'', ''danger'')], d))"

definition checkout :: "env \<Rightarrow> user \<Rightarrow> request \<Rightarrow> db \<Rightarrow> outcome" where
  "checkout e current_user req d =
     (let sd_card_id = form req ''sd_card_id'';
          event_id = or_none (form req ''event_id'');
          session_id = or_none (form req ''session_id'');
          purpose = form_get (form req) ''purpose'' '''';
          card = query_get_text e card_id (sd_cards d) sd_card_id
      in case card of
           None \<Rightarrow> (Redirect ''sd_cards_view'', [(''Card not available'', ''danger'')], d)
         | Some c \<Rightarrow>
             if card_status c = ''available''
             then (case int_if_set event_id of
                     None \<Rightarrow> (ServerError, [], d)
                   | Some ev \<Rightarrow>
                      (case int_if_set session_id of
                         None \<Rightarrow> (ServerError, [], d)
                       | Some se \<Rightarrow>
                          if \<not> (opt_in_int64 ev \<and> opt_in_int64 se)
                          then (ServerError, [], d)
                          else
                          (Redirect ''sd_cards_view'', [(''SD card checked out'', ''success'')],
                           d\<lparr>sd_cards := set_card_status (card_id c) ''checked_out'' (sd_cards d),
                             sd_card_logs := sd_card_logs d @
                               [\<lparr>log_id = fresh_id (map log_id (sd_card_logs d)),
                                 log_sd_card_id = card_id c,
                                 log_user_id = user_id current_user,
                                 log_event_id = ev, log_session_id = se,
                                 log_purpose = Some purpose,
                                 log_checked_out_at = now e,
                                 log_returned_at = None\<rparr>]\<rparr>)))
             else (Redirect ''sd_cards_view'', [(''Card not available'', ''danger'')], d))"

text \<open>
  \<^verbatim>\<open>log.sd_card\<close> is the card the log's foreign key names, \<^verbatim>\<open>None\<close> when there is none;
  \<^verbatim>\<open>card.status = ...\<close> raises then.
\<close>

definition return_card :: "env \<Rightarrow> user \<Rightarrow> request \<Rightarrow> db \<Rightarrow> outcome" where
  "return_card e current_user req d =
     (let lg = query_get_text e log_id (sd_card_logs d) (form req ''log_id'')
      in case lg of
           None \<Rightarrow> (Redirect ''sd_cards_view'', [(''Could not return card'', ''danger'')], d)
         | Some l \<Rightarrow>
             if log_returned_at l = None
             then (case query_get card_id (sd_cards d) (Some (log_sd_card_id l)) of
                     Inl err \<Rightarrow> (ServerError, [], d)
                   | Inr None \<Rightarrow> (ServerError, [], d)
                   | Inr (Some c) \<Rightarrow>
                       (Redirect ''sd_cards_view'', [(''SD card returned'', ''success'')],
                        d\<lparr>sd_card_logs := set_log_returned (log_id l) (now e) (sd_card_logs d),
                          sd_cards := set_card_status (card_id c) ''available'' (sd_cards d)\<rparr>))
             else (Redirect ''sd_cards_view'', [(''Could not return card'', ''danger'')], d))"

definition sd_cards_view :: "env \<Rightarrow> user \<Rightarrow> request \<Rightarrow> db \<Rightarrow> outcome" where
  "sd_cards_view e current_user req d =
     (if http_method req = ''POST''
      then (let action = form req ''action''
            in if action = Some ''add_card'' \<and> user_role current_user = ''founder''
               then add_card current_user req d
               else if action = Some ''checkout'' then checkout e current_user req d
               else if action = Some ''return'' then return_card e current_user req d
               else (Redirect ''sd_cards_view'', [], d))
      else (Render ''sd_cards.html'', [], d))"

section \<open>Athletes and bookings\<close>

text \<open>
  \<^verbatim>\<open>Athlete.query.filter_by(name=athlete_name, team=team).first()\<close>: the first row whose
  name and team equal the given strings (a row with no team matches none).
\<close>

definition find_athlete :: "string \<Rightarrow> string \<Rightarrow> athlete list \<Rightarrow> athlete option" where
  "find_athlete nm team rows =
     find (\<lambda>a. athlete_name a = nm \<and> athlete_team a = Some team) rows"

text \<open>
  The athlete of a booking: the matching row when there is one, a new row otherwise
  (\<^verbatim>\<open>db.session.add(athlete); db.session.flush()\<close>). The result is the athlete's id and
  the table of athletes.
\<close>

definition resolve_athlete ::
  "string \<Rightarrow> string \<Rightarrow> string \<Rightarrow> string \<Rightarrow> athlete list \<Rightarrow> int \<times> athlete list" where
  "resolve_athlete nm team weight_class notes rows =
     (case find_athlete nm team rows of
        Some a \<Rightarrow> (athlete_id a, rows)
      | None \<Rightarrow>
          (fresh_id (map athlete_id rows),
           rows @ [\<lparr>athlete_id = fresh_id (map athlete_id rows),
                    athlete_name = nm, athlete_team = Some team,
                    athlete_weight_class = Some weight_class,
                    athlete_notes = Some notes\<rparr>]))"

definition add_athlete_session :: "user \<Rightarrow> request \<Rightarrow> db \<Rightarrow> outcome" where
  "add_athlete_session current_user req d =
     (let athlete_name = py_strip (form_get (form req) ''athlete_name'' []);
          team = py_strip (form_get (form req) ''team'' []);
          weight_class = py_strip (form_get (form req) ''weight_class'' []);
          notes = py_strip (form_get (form req) ''notes'' []);
          session_id = form req ''session_id'';
          package_id = form req ''package_id'';
          music_link = py_strip (form_get (form req) ''music_link'' []);
          music_start = py_strip (form_get (form req) ''music_start'' []);
          music_end = py_strip (form_get (form req) ''music_end'' []);
          paid = str_truthy (form req ''paid'')
      in if \<not> (athlete_name \<noteq> [] \<and> str_truthy session_id \<and> str_truthy package_id)
         then (Redirect ''athletes_view'',
               [(''Athlete name, session and package are required'', ''danger'')], d)
         else
           (let (aid, rows) = resolve_athlete athlete_name team weight_class notes (athletes d)
            in case int_of_field session_id of
                 None \<Rightarrow> (ServerError, [], d)
               | Some sid \<Rightarrow>
                  (case int_of_field package_id of
                     None \<Rightarrow> (ServerError, [], d)
                   | Some pid \<Rightarrow>
                      if \<not> (in_int64 sid \<and> in_int64 pid)
                      then (ServerError, [], d)
                      else
                      (Redirect ''athletes_view'', [(''Athlete session saved'', ''success'')],
                       d\<lparr>athletes := rows,
                         athlete_sessions := athlete_sessions d @
                           [\<lparr>as_id = fresh_id (map as_id (athlete_sessions d)),
                             as_athlete_id = aid, as_session_id = sid, as_package_id = pid,
                             as_music_link = Some music_link,
                             as_music_start = Some music_start,
                             as_music_end = Some music_end,
                             as_paid = paid, as_notes = Some notes\<rparr>]\<rparr>))))"

definition athletes_view :: "user \<Rightarrow> request \<Rightarrow> db \<Rightarrow> outcome" where
  "athletes_view current_user req d =
     (if http_method req = ''POST'' \<and> user_role current_user = ''founder''
      then (if form req ''action'' = Some ''add_athlete_session''
            then add_athlete_session current_user req d
            else (Redirect ''athletes_view'', [], d))
      else (Render ''athletes.html'', [], d))"

section \<open>Manpower planning\<close>


section \<open>Edit tracking\<close>

definition add_task :: "env \<Rightarrow> user \<Rightarrow> request \<Rightarrow> db \<Rightarrow> outcome" where
  "add_task e current_user req d =
     (let athlete_session_id = form_get_int (form req) ''athlete_session_id'';
          assigned_to_user_id = form_get_int (form req) ''assigned_to_user_id'';
          edit_type = py_strip (form_get (form req) ''type'' [])
      in case (athlete_session_id, assigned_to_user_id) of
           (Some asid, Some uid) \<Rightarrow>
             if asid \<noteq> 0 \<and> uid \<noteq> 0 \<and> edit_type \<noteq> []
             then if \<not> (in_int64 asid \<and> in_int64 uid)
                  then (ServerError, [], d)
                  else
                  (Redirect ''edits_view'', [(''Edit task created'', ''success'')],
                   d\<lparr>edit_tasks := edit_tasks d @
                        [\<lparr>task_id = fresh_id (map task_id (edit_tasks d)),
                          task_athlete_session_id = asid, task_assigned_to_user_id = uid,
                          task_type = edit_type, task_status = ''not_started'',
                          task_deliverable_link = None, task_updated_at = now e\<rparr>]\<rparr>)
             else (Redirect ''edits_view'', [(''All fields are required'', ''danger'')], d)
         | _ \<Rightarrow> (Redirect ''edits_view'', [(''All fields are required'', ''danger'')], d))"

text \<open>
  The assignments of \<^verbatim>\<open>update_status\<close> to the task: \<^verbatim>\<open>if status: task.status = status\<close>,
  \<^verbatim>\<open>task.deliverable_link = deliverable_link or task.deliverable_link\<close>,
  \<^verbatim>\<open>task.updated_at = datetime.utcnow()\<close>.
\<close>

definition update_task_row :: "env \<Rightarrow> string \<Rightarrow> string \<Rightarrow> edit_task \<Rightarrow> edit_task" where
  "update_task_row e status deliverable_link t =
     t\<lparr>task_status := (if status \<noteq> [] then status else task_status t),
       task_deliverable_link :=
         (if deliverable_link \<noteq> [] then Some deliverable_link else task_deliverable_link t),
       task_updated_at := now e\<rparr>"

definition update_status :: "env \<Rightarrow> user \<Rightarrow> request \<Rightarrow> db \<Rightarrow> outcome" where
  "update_status e current_user req d =
     (let tid = form_get_int (form req) ''task_id'';
          status = py_strip (form_get (form req) ''status'' []);
          deliverable_link = py_strip (form_get (form req) ''deliverable_link'' [])
      in case query_get task_id (edit_tasks d) tid of
           Inl err \<Rightarrow> (ServerError, [], d)
         | Inr None \<Rightarrow> (Redirect ''edits_view'', [(''Task not found'', ''danger'')], d)
         | Inr (Some task) \<Rightarrow>
             if user_role current_user \<noteq> ''founder''
                \<and> task_assigned_to_user_id task \<noteq> user_id current_user
             then (Abort 403, [], d)
             else (Redirect ''edits_view'', [(''Task updated'', ''success'')],
                   d\<lparr>edit_tasks :=
                        map (\<lambda>t. if task_id t = task_id task
                                  then update_task_row e status deliverable_link t else t)
                            (edit_tasks d)\<rparr>))"

definition edits_view :: "env \<Rightarrow> user \<Rightarrow> request \<Rightarrow> db \<Rightarrow> outcome" where
  "edits_view e current_user req d =
     (if http_method req = ''POST''
      then (let action = form req ''action''
            in if action = Some ''add_task'' \<and> user_role current_user = ''founder''
               then add_task e current_user req d
               else if action = Some ''update_status'' then update_status e current_user req d
               else (Redirect ''edits_view'', [], d))
      else (Render ''edits.html'', [], d))"

section \<open>Administration\<close>





definition add_user :: "env \<Rightarrow> request \<Rightarrow> db \<Rightarrow> outcome" where
  "add_user e req d =
     (let name = py_strip (form_get (form req) ''name'' []);
          email = py_lower (py_strip (form_get (form req) ''email'' []));
          password = form_get (form req) ''password'' [];
          role = form_get (form req) ''role'' ''freelancer'';
          active = str_truthy (form req ''active'')
      in if \<not> (name \<noteq> [] \<and> email \<noteq> [] \<and> password \<noteq> [])
         then (Redirect ''manage_users'', [(''Name, email and password are required'', ''danger'')], d)
         else (case find (\<lambda>u. user_email u = email) (users d) of
                 Some existing \<Rightarrow>
                   (Redirect ''manage_users'', [(''User with that email already exists'', ''danger'')], d)
               | None \<Rightarrow>
                   (Redirect ''manage_users'', [(''User created'', ''success'')],
                    d\<lparr>users := users d @
                         [\<lparr>user_id = fresh_id (map user_id (users d)),
                           user_name = name, user_email = email,
                           user_password_hash = generate_password_hash e password,
                           user_role = role, user_active = active\<rparr>]\<rparr>)))"

definition toggle_active :: "request \<Rightarrow> db \<Rightarrow> outcome" where
  "toggle_active req d =
     (case query_get user_id (users d) (form_get_int (form req) ''user_id'') of
        Inl err \<Rightarrow> (ServerError, [], d)
      | Inr (Some user) \<Rightarrow>
          (Redirect ''manage_users'', [(''User status updated'', ''success'')],
           d\<lparr>users := map (\<lambda>u. if user_id u = user_id user
                                 then u\<lparr>user_active := \<not> user_active u\<rparr> else u) (users d)\<rparr>)
      | Inr None \<Rightarrow> (Redirect ''manage_users'', [(''User not found'', ''danger'')], d))"

definition change_role :: "request \<Rightarrow> db \<Rightarrow> outcome" where
  "change_role req d =
     (let new_role = py_strip (form_get (form req) ''role'' [])
      in case query_get user_id (users d) (form_get_int (form req) ''user_id'') of
           Inl err \<Rightarrow> (ServerError, [], d)
         | Inr (Some user) \<Rightarrow>
             if new_role \<in> set [''founder'', ''freelancer'']
             then (Redirect ''manage_users'', [(''User role updated'', ''success'')],
                   d\<lparr>users := map (\<lambda>u. if user_id u = user_id user
                                         then u\<lparr>user_role := new_role\<rparr> else u) (users d)\<rparr>)
             else (Redirect ''manage_users'', [(''Could not change role'', ''danger'')], d)
         | Inr None \<Rightarrow> (Redirect ''manage_users'', [(''Could not change role'', ''danger'')], d))"

definition manage_users :: "env \<Rightarrow> user \<Rightarrow> request \<Rightarrow> db \<Rightarrow> outcome" where
  "manage_users e current_user req d =
     (if http_method req = ''POST''
      then (let action = form req ''action''
            in if action = Some ''add_user'' then add_user e req d
               else if action = Some ''toggle_active'' then toggle_active req d
               else if action = Some ''change_role'' then change_role req d
               else (Redirect ''manage_users'', [], d))
      else (Render ''admin_users.html'', [], d))"

text \<open>
  The script \<^verbatim>\<open>src/create_admin.py\<close>: the three inputs typed at the prompts, the line it
  prints and the data store after it.
\<close>

definition create_admin :: "env \<Rightarrow> string \<Rightarrow> string \<Rightarrow> string \<Rightarrow> db \<Rightarrow> string \<times> db" where
  "create_admin e email_input name_input password d =
     (let email = py_lower (py_strip email_input);
          name = py_strip name_input
      in case find (\<lambda>u. user_email u = email) (users d) of
           Some existing \<Rightarrow> (''User with that email already exists.'', d)
         | None \<Rightarrow>
             (''Founder user created.'',
              d\<lparr>users := users d @
                   [\<lparr>user_id = fresh_id (map user_id (users d)),
                     user_name = name, user_email = email,
                     user_password_hash = generate_password_hash e password,
                     user_role = ''founder'', user_active = True\<rparr>]\<rparr>))"

section \<open>Login\<close>

text \<open>
  \<^verbatim>\<open>login\<close> changes no row; its third result is the user of the browser session after the
  request (\<^verbatim>\<open>login_user(user)\<close> sets it).
\<close>

definition login :: "env \<Rightarrow> user option \<Rightarrow> request \<Rightarrow> db \<Rightarrow> response \<times> flash list \<times> user option" where
  "login e current_user req d =
     (case current_user of
        Some u \<Rightarrow> (Redirect ''dashboard'', [], Some u)
      | None \<Rightarrow>
          if http_method req = ''POST''
          then (let email = py_lower (py_strip (form_get (form req) ''email'' []));
                    password = form_get (form req) ''password'' []
                in case find (\<lambda>u. user_email u = email \<and> user_active u) (users d) of
                     Some user \<Rightarrow>
                       if check_password_hash e (user_password_hash user) password
                       then (Redirect ''dashboard'', [], Some user)
                       else (Render ''login.html'', [(''Invalid email or password'', ''danger'')], None)
                   | None \<Rightarrow>
                       (Render ''login.html'', [(''Invalid email or password'', ''danger'')], None))
          else (Render ''login.html'', [], None))"

section \<open>Routes\<close>







definition manage_users_route :: "env \<Rightarrow> user option \<Rightarrow> request \<Rightarrow> db \<Rightarrow> outcome" where
  "manage_users_route e current_user req d =
     login_required (\<lambda>u. founder_required (\<lambda>u'. manage_users e u' req) (Some u)) current_user d"

section \<open>Properties of the data store\<close>

text \<open>The open logs of a card: the rows of its id with no return time.\<close>

definition open_logs :: "db \<Rightarrow> int \<Rightarrow> sd_card_log list" where
  "open_logs d i =
     filter (\<lambda>l. log_sd_card_id l = i \<and> log_returned_at l = None) (sd_card_logs d)"

text \<open>The custody invariant in the words of the specification.\<close>

definition custody_iff :: "db \<Rightarrow> bool" where
  "custody_iff d =
     (\<forall>c \<in> set (sd_cards d).
        (card_status c = ''checked_out'') = (length (open_logs d (card_id c)) = 1))"

text \<open>
  The invariant the two operations keep: log ids are unique (the primary key), a card that
  is checked out has exactly one open log and any other card has none.
\<close>

definition custody_inv :: "db \<Rightarrow> bool" where
  "custody_inv d =
     (distinct (map log_id (sd_card_logs d)) \<and>
      (\<forall>c \<in> set (sd_cards d).
         length (open_logs d (card_id c)) = (if card_status c = ''checked_out'' then 1 else 0)))"

text \<open>A request that asks for a checkout or a return, and a sequence of requests run in order.\<close>

definition custody_request :: "request \<Rightarrow> bool" where
  "custody_request req =
     (http_method req = ''POST'' \<and> form req ''action'' \<in> set [Some ''checkout'', Some ''return''])"

fun run_sd_cards :: "(env \<times> user \<times> request) list \<Rightarrow> db \<Rightarrow> db" where
  "run_sd_cards [] d = d"
| "run_sd_cards ((e, u, req) # rest) d = run_sd_cards rest (snd (snd (sd_cards_view e u req d)))"

text \<open>Every stored role is one of the two roles.\<close>

definition roles_valid :: "db \<Rightarrow> bool" where
  "roles_valid d = (\<forall>u \<in> set (users d). user_role u \<in> set [''founder'', ''freelancer''])"

text \<open>The unique constraint on \<^verbatim>\<open>User.email\<close>.\<close>

definition emails_unique :: "db \<Rightarrow> bool" where
  "emails_unique d = distinct (map user_email (users d))"

section \<open>Sample data\<close>

definition sample_env :: "int \<Rightarrow> env" where
  "sample_env t =
     \<lparr>now = t, pk_of_text = py_int, generate_password_hash = (\<lambda>p. ''h:'' @ p),
      check_password_hash = (\<lambda>h p. h = ''h:'' @ p), strptime_ymd = py_int\<rparr>"

definition post :: "(string \<times> string) list \<Rightarrow> request" where
  "post kvs = \<lparr>http_method = ''POST'', form = map_of kvs\<rparr>"

definition empty_db :: db where
  "empty_db =
     \<lparr>users = [], events = [], sessions = [], packages = [], athletes = [],
      athlete_sessions = [], sd_cards = [], sd_card_logs = [], manpower_allocations = [],
      edit_tasks = []\<rparr>"

definition ana :: user where
  "ana = \<lparr>user_id = 1, user_name = ''Ana'', user_email = ''ana@example.com'',
           user_password_hash = ''h:secret'', user_role = ''founder'', user_active = True\<rparr>"

definition sam :: user where
  "sam = \<lparr>user_id = 2, user_name = ''Sam'', user_email = ''sam@example.com'',
           user_password_hash = ''h:pw'', user_role = ''freelancer'', user_active = True\<rparr>"

definition kim :: user where
  "kim = \<lparr>user_id = 3, user_name = ''Kim'', user_email = ''kim@example.com'',
           user_password_hash = ''h:pw3'', user_role = ''freelancer'', user_active = False\<rparr>"

definition card1 :: "string \<Rightarrow> sd_card" where
  "card1 s = \<lparr>card_id = 1, card_label = ''SD-01'', card_capacity_gb = Some 64, card_status = s\<rparr>"

definition log_of :: "int \<Rightarrow> int option \<Rightarrow> sd_card_log" where
  "log_of i r =
     \<lparr>log_id = i, log_sd_card_id = 1, log_user_id = 2, log_event_id = None,
      log_session_id = None, log_purpose = Some ''shoot'', log_checked_out_at = 10,
      log_returned_at = r\<rparr>"

definition task1 :: edit_task where
  "task1 =
     \<lparr>task_id = 1, task_athlete_session_id = 1, task_assigned_to_user_id = 2,
      task_type = ''highlight'', task_status = ''not_started'',
      task_deliverable_link = Some ''http://old'', task_updated_at = 3\<rparr>"

section \<open>Primary keys and lookups\<close>

lemma fold_max_ge: "a \<le> fold max ids (a::int)"
  by (induction ids arbitrary: a) (auto intro: order_trans [OF max.cobounded2])

lemma fold_max_mem: "x \<in> set ids \<Longrightarrow> x \<le> fold max ids (a::int)"
proof (induction ids arbitrary: a)
  case Nil
  then show ?case by simp
next
  case (Cons y ys)
  show ?case
  proof (cases "x = y")
    case True
    have "y \<le> max y a" by simp
    also have "\<dots> \<le> fold max ys (max y a)" by (rule fold_max_ge)
    finally show ?thesis using True by simp
  next
    case False
    with Cons show ?thesis by simp
  qed
qed

lemma fresh_id_notin: "fresh_id ids \<notin> set ids"
proof
  assume "fresh_id ids \<in> set ids"
  then have "fresh_id ids \<le> fold max ids 0" by (rule fold_max_mem)
  then show False by (simp add: fresh_id_def)
qed

lemma distinct_map_eq:
  "distinct (map f xs) \<Longrightarrow> x \<in> set xs \<Longrightarrow> y \<in> set xs \<Longrightarrow> f x = f y \<Longrightarrow> x = y"
  by (simp add: distinct_map inj_on_def)

lemma find_SomeD: "find P xs = Some x \<Longrightarrow> x \<in> set xs \<and> P x"
  by (induction xs) (auto split: if_splits)

lemma query_get_SomeD:
  "query_get pk rows key = Inr (Some r) \<Longrightarrow> r \<in> set rows \<and> key = Some (pk r)"
  by (auto simp: query_get_def split: option.splits if_splits dest: find_SomeD)

lemma query_get_text_SomeD: "query_get_text e pk rows key = Some r \<Longrightarrow> r \<in> set rows"
  by (auto simp: query_get_text_def split: option.splits dest: find_SomeD)

section \<open>SD card custody: refused requests\<close>

text \<open>
  C3. A checkout request naming a card whose status is not \<^verbatim>\<open>available\<close> is answered with
  the message "Card not available" (the conflict) and the data store is left as it was:
  no log row is created and the card keeps its status.
\<close>

theorem checkout_unavailable_conflict:
  assumes "http_method req = ''POST''" and "form req ''action'' = Some ''checkout''"
      and "query_get_text e card_id (sd_cards d) (form req ''sd_card_id'') = Some c"
      and "card_status c \<noteq> ''available''"
  shows "sd_cards_view e current_user req d =
           (Redirect ''sd_cards_view'', [(''Card not available'', ''danger'')], d)"
  using assms by (simp add: sd_cards_view_def checkout_def)

theorem checkout_unavailable_conflict_witness:
  "card_status (card1 ''checked_out'') \<noteq> ''available'' \<and>
   sd_cards_view (sample_env 5) sam (post [(''action'', ''checkout''), (''sd_card_id'', ''1'')])
     (empty_db\<lparr>sd_cards := [card1 ''checked_out'']\<rparr>) =
   (Redirect ''sd_cards_view'', [(''Card not available'', ''danger'')],
    empty_db\<lparr>sd_cards := [card1 ''checked_out'']\<rparr>)"
proof -
  have q: "query_get_text (sample_env 5) card_id
             (sd_cards (empty_db\<lparr>sd_cards := [card1 ''checked_out'']\<rparr>))
             (form (post [(''action'', ''checkout''), (''sd_card_id'', ''1'')]) ''sd_card_id'')
           = Some (card1 ''checked_out'')"
    by code_simp
  have s: "card_status (card1 ''checked_out'') \<noteq> ''available''"
    by (simp add: card1_def)
  have "sd_cards_view (sample_env 5) sam
          (post [(''action'', ''checkout''), (''sd_card_id'', ''1'')])
          (empty_db\<lparr>sd_cards := [card1 ''checked_out'']\<rparr>) =
        (Redirect ''sd_cards_view'', [(''Card not available'', ''danger'')],
         empty_db\<lparr>sd_cards := [card1 ''checked_out'']\<rparr>)"
    by (rule checkout_unavailable_conflict [OF _ _ q s]) (simp_all add: post_def)
  with s show ?thesis by simp
qed

section \<open>SD card custody: returns\<close>

text \<open>
  C4. A return request whose log id names no log, or a log that already has a return time,
  is answered with the message "Could not return card" (the not-found error) and the data
  store is left as it was. A return of an open log sets its return time to now and the
  status of its card to \<^verbatim>\<open>available\<close>, both in the one store the request leaves; when
  the card of the log is missing (or its key cannot be bound) the request fails and changes
  nothing.
\<close>

theorem return_card_outcome:
  assumes "http_method req = ''POST''" and "form req ''action'' = Some ''return''"
  shows
    "((query_get_text e log_id (sd_card_logs d) (form req ''log_id'') = None \<or>
       (\<exists>l. query_get_text e log_id (sd_card_logs d) (form req ''log_id'') = Some l \<and>
            log_returned_at l \<noteq> None)) \<longrightarrow>
        sd_cards_view e current_user req d =
          (Redirect ''sd_cards_view'', [(''Could not return card'', ''danger'')], d)) \<and>
     (query_get_text e log_id (sd_card_logs d) (form req ''log_id'') = Some l \<and>
        log_returned_at l = None \<and>
        query_get card_id (sd_cards d) (Some (log_sd_card_id l)) = Inr (Some c) \<longrightarrow>
        sd_cards_view e current_user req d =
          (Redirect ''sd_cards_view'', [(''SD card returned'', ''success'')],
           d\<lparr>sd_card_logs :=
                map (\<lambda>x. if log_id x = log_id l then x\<lparr>log_returned_at := Some (now e)\<rparr> else x)
                    (sd_card_logs d),
              sd_cards :=
                map (\<lambda>x. if card_id x = log_sd_card_id l then x\<lparr>card_status := ''available''\<rparr> else x)
                    (sd_cards d)\<rparr>)) \<and>
     (query_get_text e log_id (sd_card_logs d) (form req ''log_id'') = Some l \<and>
        log_returned_at l = None \<and>
        (query_get card_id (sd_cards d) (Some (log_sd_card_id l)) = Inr None \<or>
         query_get card_id (sd_cards d) (Some (log_sd_card_id l)) = Inl OverflowError) \<longrightarrow>
        sd_cards_view e current_user req d = (ServerError, [], d))"
proof -
  have v: "sd_cards_view e current_user req d = return_card e current_user req d"
    using assms by (simp add: sd_cards_view_def)
  show ?thesis
    unfolding v
    by (auto simp: return_card_def set_log_returned_def set_card_status_def
             dest: query_get_SomeD)
qed

theorem return_card_outcome_witness:
  "sd_cards_view (sample_env 20) sam (post [(''action'', ''return''), (''log_id'', ''1'')])
     (empty_db\<lparr>sd_cards := [card1 ''checked_out''], sd_card_logs := [log_of 1 None]\<rparr>) =
   (Redirect ''sd_cards_view'', [(''SD card returned'', ''success'')],
    empty_db\<lparr>sd_cards := [card1 ''available''], sd_card_logs := [log_of 1 (Some 20)]\<rparr>) \<and>
   sd_cards_view (sample_env 30) sam (post [(''action'', ''return''), (''log_id'', ''1'')])
     (empty_db\<lparr>sd_cards := [card1 ''available''], sd_card_logs := [log_of 1 (Some 20)]\<rparr>) =
   (Redirect ''sd_cards_view'', [(''Could not return card'', ''danger'')],
    empty_db\<lparr>sd_cards := [card1 ''available''], sd_card_logs := [log_of 1 (Some 20)]\<rparr>)"
proof -
  let ?req = "post [(''action'', ''return''), (''log_id'', ''1'')]"
  let ?d1 = "empty_db\<lparr>sd_cards := [card1 ''checked_out''], sd_card_logs := [log_of 1 None]\<rparr>"
  let ?d2 = "empty_db\<lparr>sd_cards := [card1 ''available''], sd_card_logs := [log_of 1 (Some 20)]\<rparr>"
  have m: "http_method ?req = ''POST''" and a: "form ?req ''action'' = Some ''return''"
    by (simp_all add: post_def)
  have q1: "query_get_text (sample_env 20) log_id (sd_card_logs ?d1) (form ?req ''log_id'')
              = Some (log_of 1 None)"
    by code_simp
  have o1: "log_returned_at (log_of 1 None) = None" by (simp add: log_of_def)
  have c1: "query_get card_id (sd_cards ?d1) (Some (log_sd_card_id (log_of 1 None)))
              = Inr (Some (card1 ''checked_out''))"
    by code_simp
  have q2: "query_get_text (sample_env 30) log_id (sd_card_logs ?d2) (form ?req ''log_id'')
              = Some (log_of 1 (Some 20))"
    by code_simp
  have o2: "log_returned_at (log_of 1 (Some 20)) \<noteq> None" by (simp add: log_of_def)
  have r1: "sd_cards_view (sample_env 20) sam ?req ?d1 =
          (Redirect ''sd_cards_view'', [(''SD card returned'', ''success'')],
           ?d1\<lparr>sd_card_logs :=
                map (\<lambda>x. if log_id x = log_id (log_of 1 None)
                          then x\<lparr>log_returned_at := Some (now (sample_env 20))\<rparr> else x)
                    (sd_card_logs ?d1),
              sd_cards :=
                map (\<lambda>x. if card_id x = log_sd_card_id (log_of 1 None)
                          then x\<lparr>card_status := ''available''\<rparr> else x)
                    (sd_cards ?d1)\<rparr>)"
    using return_card_outcome [OF m a, of "sample_env 20" ?d1 sam "log_of 1 None" "card1 ''checked_out''"]
          q1 o1 c1 by blast
  have r2: "sd_cards_view (sample_env 30) sam ?req ?d2 =
          (Redirect ''sd_cards_view'', [(''Could not return card'', ''danger'')], ?d2)"
    using return_card_outcome [OF m a, of "sample_env 30" ?d2 sam "log_of 1 None" "card1 ''checked_out''"]
          q2 o2 by blast
  have e1: "?d1\<lparr>sd_card_logs :=
                map (\<lambda>x. if log_id x = log_id (log_of 1 None)
                          then x\<lparr>log_returned_at := Some (now (sample_env 20))\<rparr> else x)
                    (sd_card_logs ?d1),
              sd_cards :=
                map (\<lambda>x. if card_id x = log_sd_card_id (log_of 1 None)
                          then x\<lparr>card_status := ''available''\<rparr> else x)
                    (sd_cards ?d1)\<rparr> = ?d2"
    by (simp add: empty_db_def log_of_def card1_def sample_env_def)
  show ?thesis using r1 r2 e1 by simp
qed

section \<open>Edit tasks: who may update\<close>

text \<open>
  C6, as the code has it. An update of an existing task by a caller who is neither a
  founder nor the user the task is assigned to is answered with \<^verbatim>\<open>abort(403)\<close> and the
  data store is left as it was, so the status, the deliverable link and the update time of
  the task are unchanged. An update whose task id is missing, is no integer, or is an
  integer in the 64-bit range of the store that no task has, is answered with the message
  "Task not found" and changes nothing.
\<close>

theorem update_status_forbidden:
  assumes "http_method req = ''POST''" and "form req ''action'' = Some ''update_status''"
  shows
    "(query_get task_id (edit_tasks d) (form_get_int (form req) ''task_id'') = Inr (Some t) \<and>
        user_role current_user \<noteq> ''founder'' \<and>
        task_assigned_to_user_id t \<noteq> user_id current_user \<longrightarrow>
        edits_view e current_user req d = (Abort 403, [], d)) \<and>
     (query_get task_id (edit_tasks d) (form_get_int (form req) ''task_id'') = Inr None \<longrightarrow>
        edits_view e current_user req d =
          (Redirect ''edits_view'', [(''Task not found'', ''danger'')], d))"
proof -
  have v: "edits_view e current_user req d = update_status e current_user req d"
    using assms by (simp add: edits_view_def)
  show ?thesis
    unfolding v by (simp add: update_status_def)
qed

theorem update_status_forbidden_witness:
  "edits_view (sample_env 9) kim
     (post [(''action'', ''update_status''), (''task_id'', ''1''), (''status'', ''done'')])
     (empty_db\<lparr>edit_tasks := [task1]\<rparr>) =
   (Abort 403, [], empty_db\<lparr>edit_tasks := [task1]\<rparr>) \<and>
   edits_view (sample_env 9) kim
     (post [(''action'', ''update_status''), (''task_id'', ''7''), (''status'', ''done'')])
     (empty_db\<lparr>edit_tasks := [task1]\<rparr>) =
   (Redirect ''edits_view'', [(''Task not found'', ''danger'')], empty_db\<lparr>edit_tasks := [task1]\<rparr>)"
proof -
  let ?r1 = "post [(''action'', ''update_status''), (''task_id'', ''1''), (''status'', ''done'')]"
  let ?r7 = "post [(''action'', ''update_status''), (''task_id'', ''7''), (''status'', ''done'')]"
  let ?d = "empty_db\<lparr>edit_tasks := [task1]\<rparr>"
  have m1: "http_method ?r1 = ''POST''" and a1: "form ?r1 ''action'' = Some ''update_status''"
    by (simp_all add: post_def)
  have m7: "http_method ?r7 = ''POST''" and a7: "form ?r7 ''action'' = Some ''update_status''"
    by (simp_all add: post_def)
  have q1: "query_get task_id (edit_tasks ?d) (form_get_int (form ?r1) ''task_id'') =
              Inr (Some task1)"
    by code_simp
  have q7: "query_get task_id (edit_tasks ?d) (form_get_int (form ?r7) ''task_id'') = Inr None"
    by code_simp
  have k: "user_role kim \<noteq> ''founder''" "task_assigned_to_user_id task1 \<noteq> user_id kim"
    by (simp_all add: kim_def task1_def)
  have "edits_view (sample_env 9) kim ?r1 ?d = (Abort 403, [], ?d)"
    using update_status_forbidden [OF m1 a1, of ?d task1 kim "sample_env 9"] q1 k by blast
  moreover have "edits_view (sample_env 9) kim ?r7 ?d =
      (Redirect ''edits_view'', [(''Task not found'', ''danger'')], ?d)"
    using update_status_forbidden [OF m7 a7, of ?d task1 kim "sample_env 9"] q7 by blast
  ultimately show ?thesis by simp
qed

text \<open>
  The claim as it is written fails on a task id beyond the 64-bit range of the store: no
  task has the id \<^verbatim>\<open>9223372036854775808\<close>, and the lookup raises instead of finding
  nothing, so the request fails and "Task not found" is not answered.
\<close>

theorem update_status_overflow_counterexample:
  "edits_view (sample_env 9) ana
     (post [(''action'', ''update_status''), (''task_id'', ''9223372036854775808''),
            (''status'', ''done'')])
     (empty_db\<lparr>edit_tasks := [task1]\<rparr>) =
   (ServerError, [], empty_db\<lparr>edit_tasks := [task1]\<rparr>) \<and>
   9223372036854775808 \<notin> set (map task_id (edit_tasks (empty_db\<lparr>edit_tasks := [task1]\<rparr>))) \<and>
   ServerError \<noteq> Redirect ''edits_view''"
  by code_simp

section \<open>Edit tasks: what an update writes\<close>

text \<open>
  C7, as the code has it. A permitted update of an existing task first strips the white
  space around the submitted status and deliverable link. The status is replaced by the
  stripped status when that is not empty and kept otherwise; the deliverable link is
  replaced by the stripped link when that is not empty and kept otherwise; the update time
  is set to now in every such update, also when both inputs are empty. No other task and
  no other field changes.
\<close>

theorem update_status_partial_update:
  assumes "http_method req = ''POST''" and "form req ''action'' = Some ''update_status''"
      and "query_get task_id (edit_tasks d) (form_get_int (form req) ''task_id'') = Inr (Some t)"
      and "user_role current_user = ''founder'' \<or>
           task_assigned_to_user_id t = user_id current_user"
  shows
    "edits_view e current_user req d =
       (Redirect ''edits_view'', [(''Task updated'', ''success'')],
        d\<lparr>edit_tasks :=
             map (\<lambda>x. if task_id x = task_id t
                       then x\<lparr>task_status :=
                                 (if py_strip (form_get (form req) ''status'' []) = []
                                  then task_status x
                                  else py_strip (form_get (form req) ''status'' [])),
                               task_deliverable_link :=
                                 (if py_strip (form_get (form req) ''deliverable_link'' []) = []
                                  then task_deliverable_link x
                                  else Some (py_strip (form_get (form req) ''deliverable_link'' []))),
                               task_updated_at := now e\<rparr>
                       else x)
                 (edit_tasks d)\<rparr>)"
proof -
  have v: "edits_view e current_user req d = update_status e current_user req d"
    using assms(1,2) by (simp add: edits_view_def)
  have r: "\<And>s l x. update_task_row e s l x =
             x\<lparr>task_status := (if s = [] then task_status x else s),
               task_deliverable_link := (if l = [] then task_deliverable_link x else Some l),
               task_updated_at := now e\<rparr>"
    by (simp add: update_task_row_def)
  show ?thesis
    unfolding v using assms(3,4) by (auto simp: update_status_def r)
qed

theorem update_status_partial_update_witness:
  "edits_view (sample_env 9) sam
     (post [(''action'', ''update_status''), (''task_id'', ''1''), (''status'', ''in_progress'')])
     (empty_db\<lparr>edit_tasks := [task1]\<rparr>) =
   (Redirect ''edits_view'', [(''Task updated'', ''success'')],
    empty_db\<lparr>edit_tasks := [task1\<lparr>task_status := ''in_progress'', task_updated_at := 9\<rparr>]\<rparr>)"
proof -
  let ?r = "post [(''action'', ''update_status''), (''task_id'', ''1''), (''status'', ''in_progress'')]"
  let ?d = "empty_db\<lparr>edit_tasks := [task1]\<rparr>"
  have m: "http_method ?r = ''POST''" and a: "form ?r ''action'' = Some ''update_status''"
    by (simp_all add: post_def)
  have q: "query_get task_id (edit_tasks ?d) (form_get_int (form ?r) ''task_id'') =
             Inr (Some task1)"
    by code_simp
  have p: "user_role sam = ''founder'' \<or> task_assigned_to_user_id task1 = user_id sam"
    by (simp add: sam_def task1_def)
  have s: "py_strip (form_get (form ?r) ''status'' []) = ''in_progress''"
    by code_simp
  have l: "py_strip (form_get (form ?r) ''deliverable_link'' []) = []"
    by code_simp
  show ?thesis
    unfolding update_status_partial_update [OF m a q p, of "sample_env 9"] s l
    by (simp add: empty_db_def task1_def sample_env_def)
qed

text \<open>
  The claim as it is written fails on a status that is not empty but blank: the founder
  submits two spaces, the update succeeds and the status stays \<^verbatim>\<open>not_started\<close>.
\<close>

theorem update_status_blank_counterexample:
  "edits_view (sample_env 9) ana
     (post [(''action'', ''update_status''), (''task_id'', ''1''), (''status'', ''  '')])
     (empty_db\<lparr>edit_tasks := [task1]\<rparr>) =
   (Redirect ''edits_view'', [(''Task updated'', ''success'')],
    empty_db\<lparr>edit_tasks := [task1\<lparr>task_updated_at := 9\<rparr>]\<rparr>) \<and>
   task_status (task1\<lparr>task_updated_at := 9\<rparr>) = ''not_started'' \<and> ''  '' \<noteq> ''''"
proof -
  have "edits_view (sample_env 9) ana
     (post [(''action'', ''update_status''), (''task_id'', ''1''), (''status'', ''  '')])
     (empty_db\<lparr>edit_tasks := [task1]\<rparr>) =
   (Redirect ''edits_view'', [(''Task updated'', ''success'')],
    empty_db\<lparr>edit_tasks := [task1\<lparr>task_updated_at := 9\<rparr>]\<rparr>)"
    by code_simp
  then show ?thesis by (simp add: task1_def)
qed

section \<open>Founder-only actions\<close>




section \<open>Stored roles\<close>

text \<open>
  C8. \<^verbatim>\<open>add_user\<close> stores the submitted role as it is: the founder creates a user whose
  role is \<^verbatim>\<open>admin\<close>, neither \<^verbatim>\<open>founder\<close> nor \<^verbatim>\<open>freelancer\<close>.
\<close>

theorem add_user_stores_any_role:
  "manage_users_route (sample_env 1) (Some ana)
     (post [(''action'', ''add_user''), (''name'', ''Eve''), (''email'', ''eve@example.com''),
            (''password'', ''pw''), (''role'', ''admin'')])
     (empty_db\<lparr>users := [ana]\<rparr>) =
   (Redirect ''manage_users'', [(''User created'', ''success'')],
    empty_db\<lparr>users :=
      [ana, \<lparr>user_id = 2, user_name = ''Eve'', user_email = ''eve@example.com'',
             user_password_hash = ''h:pw'', user_role = ''admin'', user_active = False\<rparr>]\<rparr>)"
  by code_simp

section \<open>Creating users\<close>

lemma find_ex: "\<exists>x \<in> set xs. P x \<Longrightarrow> \<exists>y. find P xs = Some y"
  by (cases "find P xs") (auto simp: find_None_iff)

text \<open>
  C9, as the code has it. When the stripped, lower-cased email of the request is the email
  of an existing user, the bootstrap script prints "User with that email already exists."
  and \<^verbatim>\<open>add_user\<close> creates no row either; \<^verbatim>\<open>add_user\<close> reports "User with that email
  already exists" when name, email and password are all present, and "Name, email and
  password are required" otherwise. When the email is new, the bootstrap script appends
  exactly one user, with role \<^verbatim>\<open>founder\<close> and active.
\<close>

theorem user_creation_existing_email:
  "((\<exists>u \<in> set (users d). user_email u = py_lower (py_strip email_input)) \<longrightarrow>
      create_admin e email_input name_input password d =
        (''User with that email already exists.'', d)) \<and>
   (http_method req = ''POST'' \<and> form req ''action'' = Some ''add_user'' \<and>
    (\<exists>u \<in> set (users d). user_email u = py_lower (py_strip (form_get (form req) ''email'' []))) \<longrightarrow>
      manage_users e current_user req d =
        (Redirect ''manage_users'',
         [if py_strip (form_get (form req) ''name'' []) \<noteq> [] \<and>
             py_lower (py_strip (form_get (form req) ''email'' [])) \<noteq> [] \<and>
             form_get (form req) ''password'' [] \<noteq> []
          then (''User with that email already exists'', ''danger'')
          else (''Name, email and password are required'', ''danger'')], d)) \<and>
   (\<not> (\<exists>u \<in> set (users d). user_email u = py_lower (py_strip email_input)) \<longrightarrow>
      create_admin e email_input name_input password d =
        (''Founder user created.'',
         d\<lparr>users := users d @
              [\<lparr>user_id = fresh_id (map user_id (users d)),
                user_name = py_strip name_input,
                user_email = py_lower (py_strip email_input),
                user_password_hash = generate_password_hash e password,
                user_role = ''founder'', user_active = True\<rparr>]\<rparr>))"
proof -
  have a: "(\<exists>u \<in> set (users d). user_email u = py_lower (py_strip email_input)) \<longrightarrow>
      create_admin e email_input name_input password d =
        (''User with that email already exists.'', d)"
    by (auto simp: create_admin_def dest!: find_ex [of "users d" "\<lambda>u. user_email u = py_lower (py_strip email_input)"])
  have b: "http_method req = ''POST'' \<and> form req ''action'' = Some ''add_user'' \<and>
    (\<exists>u \<in> set (users d). user_email u = py_lower (py_strip (form_get (form req) ''email'' []))) \<longrightarrow>
      manage_users e current_user req d =
        (Redirect ''manage_users'',
         [if py_strip (form_get (form req) ''name'' []) \<noteq> [] \<and>
             py_lower (py_strip (form_get (form req) ''email'' [])) \<noteq> [] \<and>
             form_get (form req) ''password'' [] \<noteq> []
          then (''User with that email already exists'', ''danger'')
          else (''Name, email and password are required'', ''danger'')], d)"
    by (auto simp: manage_users_def add_user_def
             dest!: find_ex [of "users d"
                      "\<lambda>u. user_email u = py_lower (py_strip (form_get (form req) ''email'' []))"])
  have c: "\<not> (\<exists>u \<in> set (users d). user_email u = py_lower (py_strip email_input)) \<longrightarrow>
      create_admin e email_input name_input password d =
        (''Founder user created.'',
         d\<lparr>users := users d @
              [\<lparr>user_id = fresh_id (map user_id (users d)),
                user_name = py_strip name_input,
                user_email = py_lower (py_strip email_input),
                user_password_hash = generate_password_hash e password,
                user_role = ''founder'', user_active = True\<rparr>]\<rparr>)"
  proof
    assume "\<not> (\<exists>u \<in> set (users d). user_email u = py_lower (py_strip email_input))"
    then have "find (\<lambda>u. user_email u = py_lower (py_strip email_input)) (users d) = None"
      by (simp add: find_None_iff)
    then show "create_admin e email_input name_input password d =
        (''Founder user created.'',
         d\<lparr>users := users d @
              [\<lparr>user_id = fresh_id (map user_id (users d)),
                user_name = py_strip name_input,
                user_email = py_lower (py_strip email_input),
                user_password_hash = generate_password_hash e password,
                user_role = ''founder'', user_active = True\<rparr>]\<rparr>)"
      by (simp add: create_admin_def Let_def)
  qed
  from a b c show ?thesis by blast
qed

theorem user_creation_existing_email_witness:
  "create_admin (sample_env 1) '' Ana@Example.com '' ''Ana'' ''secret'' (empty_db\<lparr>users := [ana]\<rparr>) =
     (''User with that email already exists.'', empty_db\<lparr>users := [ana]\<rparr>) \<and>
   create_admin (sample_env 1) '' Ana@Example.com '' ''Ana '' ''secret'' empty_db =
     (''Founder user created.'', empty_db\<lparr>users := [ana]\<rparr>)"
proof -
  have n: "py_lower (py_strip '' Ana@Example.com '') = ''ana@example.com''" by code_simp
  have h: "\<exists>u \<in> set (users (empty_db\<lparr>users := [ana]\<rparr>)).
             user_email u = py_lower (py_strip '' Ana@Example.com '')"
    unfolding n by (simp add: ana_def)
  have h0: "\<not> (\<exists>u \<in> set (users empty_db). user_email u = py_lower (py_strip '' Ana@Example.com ''))"
    by (simp add: empty_db_def)
  have v: "empty_db\<lparr>users := users empty_db @
              [\<lparr>user_id = fresh_id (map user_id (users empty_db)),
                user_name = py_strip ''Ana '',
                user_email = py_lower (py_strip '' Ana@Example.com ''),
                user_password_hash = generate_password_hash (sample_env 1) ''secret'',
                user_role = ''founder'', user_active = True\<rparr>]\<rparr> = empty_db\<lparr>users := [ana]\<rparr>"
    by code_simp
  from user_creation_existing_email
         [of "empty_db\<lparr>users := [ana]\<rparr>" "'' Ana@Example.com ''" "sample_env 1" "''Ana''" "''secret''"]
       h
  have r1: "create_admin (sample_env 1) '' Ana@Example.com '' ''Ana'' ''secret''
              (empty_db\<lparr>users := [ana]\<rparr>) =
            (''User with that email already exists.'', empty_db\<lparr>users := [ana]\<rparr>)"
    by blast
  from user_creation_existing_email
         [of empty_db "'' Ana@Example.com ''" "sample_env 1" "''Ana ''" "''secret''"] h0
  have r2: "create_admin (sample_env 1) '' Ana@Example.com '' ''Ana '' ''secret'' empty_db =
        (''Founder user created.'',
         empty_db\<lparr>users := users empty_db @
              [\<lparr>user_id = fresh_id (map user_id (users empty_db)),
                user_name = py_strip ''Ana '',
                user_email = py_lower (py_strip '' Ana@Example.com ''),
                user_password_hash = generate_password_hash (sample_env 1) ''secret'',
                user_role = ''founder'', user_active = True\<rparr>]\<rparr>)"
    by blast
  from r1 r2 v show ?thesis by simp
qed

text \<open>
  The claim as it is written fails for \<^verbatim>\<open>add_user\<close>: with the email of an existing user and
  no name, the request is answered with the message about required fields, not with the
  conflict.
\<close>

theorem add_user_existing_email_counterexample:
  "manage_users (sample_env 1) ana
     (post [(''action'', ''add_user''), (''name'', ''''), (''email'', ''sam@example.com''),
            (''password'', ''pw'')])
     (empty_db\<lparr>users := [ana, sam]\<rparr>) =
   (Redirect ''manage_users'', [(''Name, email and password are required'', ''danger'')],
    empty_db\<lparr>users := [ana, sam]\<rparr>) \<and>
   user_email sam = ''sam@example.com''"
proof -
  have "manage_users (sample_env 1) ana
     (post [(''action'', ''add_user''), (''name'', ''''), (''email'', ''sam@example.com''),
            (''password'', ''pw'')])
     (empty_db\<lparr>users := [ana, sam]\<rparr>) =
   (Redirect ''manage_users'', [(''Name, email and password are required'', ''danger'')],
    empty_db\<lparr>users := [ana, sam]\<rparr>)"
    by code_simp
  then show ?thesis by (simp add: sam_def)
qed

section \<open>Login\<close>

lemma login_post:
  "http_method req = ''POST'' \<Longrightarrow>
   snd (snd (login e None req d)) =
     (case find (\<lambda>u. user_email u = py_lower (py_strip (form_get (form req) ''email'' []))
                      \<and> user_active u) (users d) of
        None \<Rightarrow> None
      | Some x \<Rightarrow> if check_password_hash e (user_password_hash x)
                        (form_get (form req) ''password'' [])
                   then Some x else None)"
  by (simp add: login_def Let_def split: option.split)

text \<open>
  C10, as the code has it. With unique emails, a login attempt (a POST by a caller who is
  not logged in) authenticates if and only if some user's stored email equals the
  stripped, lower-cased submitted email, that user is active, and the stored hash verifies
  the submitted password. The user who is logged in is an active user of the data store: a
  deactivated user never authenticates, whatever the credentials.
\<close>

theorem login_authenticates_iff:
  assumes "http_method req = ''POST''" and "emails_unique d"
  shows
    "((\<exists>u. snd (snd (login e None req d)) = Some u) =
      (\<exists>u \<in> set (users d).
          user_email u = py_lower (py_strip (form_get (form req) ''email'' [])) \<and>
          user_active u \<and>
          check_password_hash e (user_password_hash u) (form_get (form req) ''password'' []))) \<and>
     (\<forall>u. snd (snd (login e None req d)) = Some u \<longrightarrow> u \<in> set (users d) \<and> user_active u)"
proof -
  define m where "m = py_lower (py_strip (form_get (form req) ''email'' []))"
  define pw where "pw = form_get (form req) ''password'' []"
  define P :: "user \<Rightarrow> bool" where "P = (\<lambda>u. user_email u = m \<and> user_active u)"
  define r where "r = snd (snd (login e None req d))"
  have res: "r = (case find P (users d) of None \<Rightarrow> None
                  | Some x \<Rightarrow> if check_password_hash e (user_password_hash x) pw
                               then Some x else None)"
    unfolding r_def P_def m_def pw_def by (rule login_post [OF assms(1)])
  have goal: "((\<exists>u. r = Some u) =
      (\<exists>u \<in> set (users d). user_email u = m \<and> user_active u \<and>
          check_password_hash e (user_password_hash u) pw)) \<and>
     (\<forall>u. r = Some u \<longrightarrow> u \<in> set (users d) \<and> user_active u)"
  proof (cases "find P (users d)")
    case None
    then have no: "\<forall>u \<in> set (users d). \<not> P u"
      by (simp add: find_None_iff)
    have rn: "r = None" using res None by simp
    have "\<not> (\<exists>u \<in> set (users d). user_email u = m \<and> user_active u \<and>
          check_password_hash e (user_password_hash u) pw)"
      using no unfolding P_def by blast
    with rn show ?thesis by simp
  next
    case (Some x)
    from find_SomeD [OF Some] have x: "x \<in> set (users d)" "user_email x = m" "user_active x"
      unfolding P_def by simp_all
    have rs: "r = (if check_password_hash e (user_password_hash x) pw then Some x else None)"
      using res Some by simp
    have only: "u = x" if "u \<in> set (users d)" "user_email u = m" for u
    proof (rule distinct_map_eq [of user_email "users d"])
      show "distinct (map user_email (users d))" using assms(2) by (simp add: emails_unique_def)
      show "u \<in> set (users d)" by (rule that(1))
      show "x \<in> set (users d)" by (rule x(1))
      show "user_email u = user_email x" using that(2) x(2) by simp
    qed
    show ?thesis
    proof (cases "check_password_hash e (user_password_hash x) pw")
      case True
      then have "r = Some x" using rs by simp
      moreover have "\<exists>u \<in> set (users d). user_email u = m \<and> user_active u \<and>
          check_password_hash e (user_password_hash u) pw"
        using x True by blast
      ultimately show ?thesis using x by simp
    next
      case False
      then have rn: "r = None" using rs by simp
      have "\<not> (\<exists>u \<in> set (users d). user_email u = m \<and> user_active u \<and>
          check_password_hash e (user_password_hash u) pw)"
      proof
        assume "\<exists>u \<in> set (users d). user_email u = m \<and> user_active u \<and>
          check_password_hash e (user_password_hash u) pw"
        then obtain u where u: "u \<in> set (users d)" "user_email u = m"
          "check_password_hash e (user_password_hash u) pw" by blast
        from only [OF u(1,2)] u(3) False show False by simp
      qed
      with rn show ?thesis by simp
    qed
  qed
  then show ?thesis unfolding r_def m_def pw_def .
qed

theorem login_authenticates_iff_witness:
  "snd (snd (login (sample_env 0) None
       (post [(''email'', ''kim@example.com''), (''password'', ''pw3'')])
       (empty_db\<lparr>users := [sam, kim]\<rparr>))) = None \<and>
   check_password_hash (sample_env 0) (user_password_hash kim) ''pw3'' \<and>
   \<not> user_active kim"
proof -
  let ?r = "post [(''email'', ''kim@example.com''), (''password'', ''pw3'')]"
  let ?d = "empty_db\<lparr>users := [sam, kim]\<rparr>"
  have m: "http_method ?r = ''POST''" by (simp add: post_def)
  have u: "emails_unique ?d" by (simp add: emails_unique_def sam_def kim_def)
  have n: "py_lower (py_strip (form_get (form ?r) ''email'' [])) = ''kim@example.com''"
    by code_simp
  have no: "\<not> (\<exists>u \<in> set (users ?d).
          user_email u = py_lower (py_strip (form_get (form ?r) ''email'' [])) \<and>
          user_active u \<and>
          check_password_hash (sample_env 0) (user_password_hash u)
            (form_get (form ?r) ''password'' []))"
    unfolding n by (simp add: sam_def kim_def)
  from login_authenticates_iff [OF m u, of "sample_env 0"] no
  have "\<not> (\<exists>u. snd (snd (login (sample_env 0) None ?r ?d)) = Some u)" by blast
  then have "snd (snd (login (sample_env 0) None ?r ?d)) = None" by simp
  moreover have "check_password_hash (sample_env 0) (user_password_hash kim) ''pw3''"
    by (simp add: sample_env_def kim_def)
  moreover have "\<not> user_active kim" by (simp add: kim_def)
  ultimately show ?thesis by simp
qed

text \<open>
  The claim as it is written compares the user's normalised email with the submitted one.
  It fails on a submitted email in capitals: the login succeeds, and no user's
  normalised email equals what was submitted.
\<close>

theorem login_capitals_counterexample:
  "login (sample_env 0) None (post [(''email'', ''SAM@Example.com''), (''password'', ''pw'')])
     (empty_db\<lparr>users := [sam, kim]\<rparr>) = (Redirect ''dashboard'', [], Some sam) \<and>
   py_lower (py_strip (user_email sam)) \<noteq> ''SAM@Example.com'' \<and>
   py_lower (py_strip (user_email kim)) \<noteq> ''SAM@Example.com''"
  by code_simp

section \<open>Booking an athlete twice\<close>

lemma int_of_field_truthy: "int_of_field x = Some i \<Longrightarrow> str_truthy x"
  by (cases x) (auto simp: int_of_field_def str_truthy_def py_int_def py_strip_def)

lemma find_filter: "find P xs = (case filter P xs of [] \<Rightarrow> None | x # ys \<Rightarrow> Some x)"
  by (induction xs) simp_all

lemma resolve_athlete_filter:
  "resolve_athlete nm team weight_class notes rows =
     (case filter (\<lambda>a. athlete_name a = nm \<and> athlete_team a = Some team) rows of
        [] \<Rightarrow>
          (fresh_id (map athlete_id rows),
           rows @ [\<lparr>athlete_id = fresh_id (map athlete_id rows),
                    athlete_name = nm, athlete_team = Some team,
                    athlete_weight_class = Some weight_class,
                    athlete_notes = Some notes\<rparr>])
      | a # as \<Rightarrow> (athlete_id a, rows))"
  unfolding resolve_athlete_def find_athlete_def find_filter
  by (simp split: list.split)

lemma booking_saved:
  assumes "http_method req = ''POST''" and "user_role current_user = ''founder''"
      and "form req ''action'' = Some ''add_athlete_session''"
      and "py_strip (form_get (form req) ''athlete_name'' []) \<noteq> []"
      and "int_of_field (form req ''session_id'') = Some sid"
      and "int_of_field (form req ''package_id'') = Some pid"
      and "in_int64 sid" and "in_int64 pid"
  shows "athletes_view current_user req d =
           (Redirect ''athletes_view'', [(''Athlete session saved'', ''success'')],
            d\<lparr>athletes :=
                 snd (resolve_athlete (py_strip (form_get (form req) ''athlete_name'' []))
                        (py_strip (form_get (form req) ''team'' []))
                        (py_strip (form_get (form req) ''weight_class'' []))
                        (py_strip (form_get (form req) ''notes'' [])) (athletes d)),
              athlete_sessions := athlete_sessions d @
                [\<lparr>as_id = fresh_id (map as_id (athlete_sessions d)),
                  as_athlete_id =
                    fst (resolve_athlete (py_strip (form_get (form req) ''athlete_name'' []))
                           (py_strip (form_get (form req) ''team'' []))
                           (py_strip (form_get (form req) ''weight_class'' []))
                           (py_strip (form_get (form req) ''notes'' [])) (athletes d)),
                  as_session_id = sid, as_package_id = pid,
                  as_music_link = Some (py_strip (form_get (form req) ''music_link'' [])),
                  as_music_start = Some (py_strip (form_get (form req) ''music_start'' [])),
                  as_music_end = Some (py_strip (form_get (form req) ''music_end'' [])),
                  as_paid = str_truthy (form req ''paid''),
                  as_notes = Some (py_strip (form_get (form req) ''notes'' []))\<rparr>]\<rparr>)"
proof -
  have v: "athletes_view current_user req d = add_athlete_session current_user req d"
    using assms(1,2,3) by (simp add: athletes_view_def)
  have t: "str_truthy (form req ''session_id'')" "str_truthy (form req ''package_id'')"
    using assms(5,6) by (auto dest: int_of_field_truthy)
  show ?thesis
    unfolding v add_athlete_session_def Let_def
    using assms(4,5,6,7,8) t by (simp add: case_prod_beta)
qed

text \<open>
  C5. Two bookings by a founder that carry the same athlete name and team (once stripped),
  each with a name that is not empty and a session and a package that read as integers the
  store can hold. Both are saved. When no athlete has that name and that team, the first
  booking appends exactly one athlete, with a fresh id, and that row is then the only one
  with the name and team; when some athlete has them, no athlete is added and the first
  such row is taken. The second booking leaves the athletes as the first one left them,
  whatever its weight class and notes. Two athlete sessions are appended, one per booking,
  both with the id of that athlete.
\<close>

theorem booking_twice_one_athlete:
  assumes "user_role u1 = ''founder''" and "user_role u2 = ''founder''"
      and "http_method r1 = ''POST''" and "form r1 ''action'' = Some ''add_athlete_session''"
      and "http_method r2 = ''POST''" and "form r2 ''action'' = Some ''add_athlete_session''"
      and "py_strip (form_get (form r1) ''athlete_name'' []) = nm"
      and "py_strip (form_get (form r2) ''athlete_name'' []) = nm"
      and "nm \<noteq> []"
      and "py_strip (form_get (form r1) ''team'' []) = tm"
      and "py_strip (form_get (form r2) ''team'' []) = tm"
      and "int_of_field (form r1 ''session_id'') = Some s1"
      and "int_of_field (form r1 ''package_id'') = Some p1"
      and "int_of_field (form r2 ''session_id'') = Some s2"
      and "int_of_field (form r2 ''package_id'') = Some p2"
      and "in_int64 s1" and "in_int64 p1" and "in_int64 s2" and "in_int64 p2"
  shows
    "let matches = filter (\<lambda>a. athlete_name a = nm \<and> athlete_team a = Some tm) (athletes d);
         new = \<lparr>athlete_id = fresh_id (map athlete_id (athletes d)),
                 athlete_name = nm, athlete_team = Some tm,
                 athlete_weight_class = Some (py_strip (form_get (form r1) ''weight_class'' [])),
                 athlete_notes = Some (py_strip (form_get (form r1) ''notes'' []))\<rparr>;
         rows = (case matches of [] \<Rightarrow> athletes d @ [new] | a # as \<Rightarrow> athletes d);
         aid = (case matches of [] \<Rightarrow> athlete_id new | a # as \<Rightarrow> athlete_id a);
         x = \<lparr>as_id = fresh_id (map as_id (athlete_sessions d)),
               as_athlete_id = aid, as_session_id = s1, as_package_id = p1,
               as_music_link = Some (py_strip (form_get (form r1) ''music_link'' [])),
               as_music_start = Some (py_strip (form_get (form r1) ''music_start'' [])),
               as_music_end = Some (py_strip (form_get (form r1) ''music_end'' [])),
               as_paid = str_truthy (form r1 ''paid''),
               as_notes = Some (py_strip (form_get (form r1) ''notes'' []))\<rparr>;
         y = \<lparr>as_id = fresh_id (map as_id (athlete_sessions d @ [x])),
               as_athlete_id = aid, as_session_id = s2, as_package_id = p2,
               as_music_link = Some (py_strip (form_get (form r2) ''music_link'' [])),
               as_music_start = Some (py_strip (form_get (form r2) ''music_start'' [])),
               as_music_end = Some (py_strip (form_get (form r2) ''music_end'' [])),
               as_paid = str_truthy (form r2 ''paid''),
               as_notes = Some (py_strip (form_get (form r2) ''notes'' []))\<rparr>
     in athletes_view u1 r1 d =
          (Redirect ''athletes_view'', [(''Athlete session saved'', ''success'')],
           d\<lparr>athletes := rows, athlete_sessions := athlete_sessions d @ [x]\<rparr>) \<and>
        athletes_view u2 r2 (d\<lparr>athletes := rows, athlete_sessions := athlete_sessions d @ [x]\<rparr>) =
          (Redirect ''athletes_view'', [(''Athlete session saved'', ''success'')],
           d\<lparr>athletes := rows, athlete_sessions := athlete_sessions d @ [x, y]\<rparr>) \<and>
        (matches = [] \<longrightarrow>
           filter (\<lambda>a. athlete_name a = nm \<and> athlete_team a = Some tm) rows = [new])"
proof -
  define M :: "athlete \<Rightarrow> bool" where "M = (\<lambda>a. athlete_name a = nm \<and> athlete_team a = Some tm)"
  define matches where "matches = filter M (athletes d)"
  define wc where "wc = py_strip (form_get (form r1) ''weight_class'' [])"
  define nt where "nt = py_strip (form_get (form r1) ''notes'' [])"
  define wc2 where "wc2 = py_strip (form_get (form r2) ''weight_class'' [])"
  define nt2 where "nt2 = py_strip (form_get (form r2) ''notes'' [])"
  define new :: athlete where
    "new = \<lparr>athlete_id = fresh_id (map athlete_id (athletes d)),
            athlete_name = nm, athlete_team = Some tm,
            athlete_weight_class = Some wc, athlete_notes = Some nt\<rparr>"
  define rows where "rows = (case matches of [] \<Rightarrow> athletes d @ [new] | a # as \<Rightarrow> athletes d)"
  define aid where "aid = (case matches of [] \<Rightarrow> athlete_id new | a # as \<Rightarrow> athlete_id a)"
  define x :: athlete_session where
    "x = \<lparr>as_id = fresh_id (map as_id (athlete_sessions d)),
          as_athlete_id = aid, as_session_id = s1, as_package_id = p1,
          as_music_link = Some (py_strip (form_get (form r1) ''music_link'' [])),
          as_music_start = Some (py_strip (form_get (form r1) ''music_start'' [])),
          as_music_end = Some (py_strip (form_get (form r1) ''music_end'' [])),
          as_paid = str_truthy (form r1 ''paid''),
          as_notes = Some nt\<rparr>"
  define y :: athlete_session where
    "y = \<lparr>as_id = fresh_id (map as_id (athlete_sessions d @ [x])),
          as_athlete_id = aid, as_session_id = s2, as_package_id = p2,
          as_music_link = Some (py_strip (form_get (form r2) ''music_link'' [])),
          as_music_start = Some (py_strip (form_get (form r2) ''music_start'' [])),
          as_music_end = Some (py_strip (form_get (form r2) ''music_end'' [])),
          as_paid = str_truthy (form r2 ''paid''),
          as_notes = Some nt2\<rparr>"
  define d1 :: db where "d1 = d\<lparr>athletes := rows, athlete_sessions := athlete_sessions d @ [x]\<rparr>"
  have n1: "py_strip (form_get (form r1) ''athlete_name'' []) \<noteq> []"
    using assms(7,9) by simp
  have n2: "py_strip (form_get (form r2) ''athlete_name'' []) \<noteq> []"
    using assms(8,9) by simp
  have res1: "resolve_athlete nm tm wc nt (athletes d) = (aid, rows)"
    unfolding resolve_athlete_filter aid_def rows_def matches_def M_def new_def
    by (simp split: list.split)
  have fm: "filter M rows = (case matches of [] \<Rightarrow> [new] | a # as \<Rightarrow> matches)"
  proof (cases matches)
    case Nil
    then have "filter M (athletes d) = []" by (simp add: matches_def)
    then show ?thesis using Nil by (simp add: rows_def M_def new_def)
  next
    case (Cons a as)
    then show ?thesis by (simp add: rows_def matches_def)
  qed
  have res2: "resolve_athlete nm tm wc2 nt2 rows = (aid, rows)"
    unfolding resolve_athlete_filter M_def [symmetric] fm
    by (cases matches) (simp_all add: aid_def)
  have o1: "athletes_view u1 r1 d =
              (Redirect ''athletes_view'', [(''Athlete session saved'', ''success'')], d1)"
    unfolding booking_saved [OF assms(3) assms(1) assms(4) n1 assms(12) assms(13) assms(16) assms(17)]
    unfolding assms(7) assms(10) wc_def [symmetric] nt_def [symmetric] res1
    by (simp add: d1_def x_def)
  have o2: "athletes_view u2 r2 d1 =
              (Redirect ''athletes_view'', [(''Athlete session saved'', ''success'')],
               d\<lparr>athletes := rows, athlete_sessions := athlete_sessions d @ [x, y]\<rparr>)"
  proof -
    have a: "athletes d1 = rows" and s: "athlete_sessions d1 = athlete_sessions d @ [x]"
      by (simp_all add: d1_def)
    show ?thesis
      unfolding booking_saved [OF assms(5) assms(2) assms(6) n2 assms(14) assms(15) assms(18) assms(19)]
      unfolding assms(8) assms(11) wc2_def [symmetric] nt2_def [symmetric] a s res2
      by (simp add: d1_def y_def)
  qed
  have one: "matches = [] \<longrightarrow> filter M rows = [new]"
    unfolding fm by simp
  from o1 o2 one show ?thesis
    unfolding Let_def d1_def x_def y_def aid_def rows_def new_def matches_def M_def wc_def nt_def nt2_def
    by blast
qed

theorem booking_twice_one_athlete_witness:
  "user_role ana = ''founder'' \<and>
   athletes_view ana
     (post [(''action'', ''add_athlete_session''), (''athlete_name'', ''Lee''), (''team'', ''Red''),
            (''weight_class'', ''60''), (''session_id'', ''1''), (''package_id'', ''1'')])
     (empty_db\<lparr>athletes :=
        [\<lparr>athlete_id = 1, athlete_name = ''Lee'', athlete_team = Some ''Blue'',
          athlete_weight_class = None, athlete_notes = None\<rparr>]\<rparr>) =
   (Redirect ''athletes_view'', [(''Athlete session saved'', ''success'')],
    empty_db\<lparr>athletes :=
        [\<lparr>athlete_id = 1, athlete_name = ''Lee'', athlete_team = Some ''Blue'',
          athlete_weight_class = None, athlete_notes = None\<rparr>,
         \<lparr>athlete_id = 2, athlete_name = ''Lee'', athlete_team = Some ''Red'',
          athlete_weight_class = Some ''60'', athlete_notes = Some []\<rparr>],
      athlete_sessions :=
        [\<lparr>as_id = 1, as_athlete_id = 2, as_session_id = 1, as_package_id = 1,
          as_music_link = Some [], as_music_start = Some [], as_music_end = Some [],
          as_paid = False, as_notes = Some []\<rparr>]\<rparr>) \<and>
   athletes_view ana
     (post [(''action'', ''add_athlete_session''), (''athlete_name'', ''Lee''), (''team'', ''Red''),
            (''weight_class'', ''65''), (''notes'', ''later''), (''session_id'', ''2''),
            (''package_id'', ''1'')])
     (empty_db\<lparr>athletes :=
        [\<lparr>athlete_id = 1, athlete_name = ''Lee'', athlete_team = Some ''Blue'',
          athlete_weight_class = None, athlete_notes = None\<rparr>,
         \<lparr>athlete_id = 2, athlete_name = ''Lee'', athlete_team = Some ''Red'',
          athlete_weight_class = Some ''60'', athlete_notes = Some []\<rparr>],
      athlete_sessions :=
        [\<lparr>as_id = 1, as_athlete_id = 2, as_session_id = 1, as_package_id = 1,
          as_music_link = Some [], as_music_start = Some [], as_music_end = Some [],
          as_paid = False, as_notes = Some []\<rparr>]\<rparr>) =
   (Redirect ''athletes_view'', [(''Athlete session saved'', ''success'')],
    empty_db\<lparr>athletes :=
        [\<lparr>athlete_id = 1, athlete_name = ''Lee'', athlete_team = Some ''Blue'',
          athlete_weight_class = None, athlete_notes = None\<rparr>,
         \<lparr>athlete_id = 2, athlete_name = ''Lee'', athlete_team = Some ''Red'',
          athlete_weight_class = Some ''60'', athlete_notes = Some []\<rparr>],
      athlete_sessions :=
        [\<lparr>as_id = 1, as_athlete_id = 2, as_session_id = 1, as_package_id = 1,
          as_music_link = Some [], as_music_start = Some [], as_music_end = Some [],
          as_paid = False, as_notes = Some []\<rparr>,
         \<lparr>as_id = 2, as_athlete_id = 2, as_session_id = 2, as_package_id = 1,
          as_music_link = Some [], as_music_start = Some [], as_music_end = Some [],
          as_paid = False, as_notes = Some ''later''\<rparr>]\<rparr>)"
proof -
  let ?r1 = "post [(''action'', ''add_athlete_session''), (''athlete_name'', ''Lee''),
                   (''team'', ''Red''), (''weight_class'', ''60''), (''session_id'', ''1''),
                   (''package_id'', ''1'')]"
  let ?r2 = "post [(''action'', ''add_athlete_session''), (''athlete_name'', ''Lee''),
                   (''team'', ''Red''), (''weight_class'', ''65''), (''notes'', ''later''),
                   (''session_id'', ''2''), (''package_id'', ''1'')]"
  let ?d = "empty_db\<lparr>athletes :=
        [\<lparr>athlete_id = 1, athlete_name = ''Lee'', athlete_team = Some ''Blue'',
          athlete_weight_class = None, athlete_notes = None\<rparr>]\<rparr>"
  have f: "user_role ana = ''founder''" by (simp add: ana_def)
  have m1: "http_method ?r1 = ''POST''" and a1: "form ?r1 ''action'' = Some ''add_athlete_session''"
    by (simp_all add: post_def)
  have m2: "http_method ?r2 = ''POST''" and a2: "form ?r2 ''action'' = Some ''add_athlete_session''"
    by (simp_all add: post_def)
  have n1: "py_strip (form_get (form ?r1) ''athlete_name'' []) = ''Lee''" by code_simp
  have n2: "py_strip (form_get (form ?r2) ''athlete_name'' []) = ''Lee''" by code_simp
  have ne: "''Lee'' \<noteq> []" by simp
  have t1: "py_strip (form_get (form ?r1) ''team'' []) = ''Red''" by code_simp
  have t2: "py_strip (form_get (form ?r2) ''team'' []) = ''Red''" by code_simp
  have s1: "int_of_field (form ?r1 ''session_id'') = Some 1" by code_simp
  have p1: "int_of_field (form ?r1 ''package_id'') = Some 1" by code_simp
  have s2: "int_of_field (form ?r2 ''session_id'') = Some 2" by code_simp
  have p2: "int_of_field (form ?r2 ''package_id'') = Some 1" by code_simp
  have i1: "in_int64 1" and i2: "in_int64 2" by (simp_all add: in_int64_def)
  have w1: "py_strip (form_get (form ?r1) ''weight_class'' []) = ''60''" by code_simp
  have o1: "py_strip (form_get (form ?r1) ''notes'' []) = []" by code_simp
  have o2: "py_strip (form_get (form ?r2) ''notes'' []) = ''later''" by code_simp
  have l1: "py_strip (form_get (form ?r1) ''music_link'' []) = []" by code_simp
  have l2: "py_strip (form_get (form ?r2) ''music_link'' []) = []" by code_simp
  have b1: "py_strip (form_get (form ?r1) ''music_start'' []) = []" by code_simp
  have b2: "py_strip (form_get (form ?r2) ''music_start'' []) = []" by code_simp
  have e1: "py_strip (form_get (form ?r1) ''music_end'' []) = []" by code_simp
  have e2: "py_strip (form_get (form ?r2) ''music_end'' []) = []" by code_simp
  have q1: "str_truthy (form ?r1 ''paid'') = False" by code_simp
  have q2: "str_truthy (form ?r2 ''paid'') = False" by code_simp
  note t = booking_twice_one_athlete
    [OF f f m1 a1 m2 a2 n1 n2 ne t1 t2 s1 p1 s2 p2 i1 i1 i2 i1, of ?d, unfolded Let_def]
  from t f show ?thesis
    unfolding w1 o1 o2 l1 l2 b1 b2 e1 e2 q1 q2
    by (simp add: empty_db_def fresh_id_def)
qed

section \<open>SD card custody: the invariant\<close>

lemma custody_inv_iff: "custody_inv d \<Longrightarrow> custody_iff d"
  by (simp add: custody_inv_def custody_iff_def)

lemma set_card_status_cases:
  "x \<in> set (set_card_status i s cs) \<Longrightarrow>
   \<exists>x0 \<in> set cs. (card_id x0 = i \<and> x = x0\<lparr>card_status := s\<rparr>) \<or> (card_id x0 \<noteq> i \<and> x = x0)"
  by (auto simp: set_card_status_def)

lemma set_log_returned_ids: "map log_id (set_log_returned k t ls) = map log_id ls"
  by (induction ls) (simp_all add: set_log_returned_def)

lemma open_after_return:
  "filter (\<lambda>x. log_sd_card_id x = j \<and> log_returned_at x = None) (set_log_returned k t ls) =
   filter (\<lambda>x. log_id x \<noteq> k)
     (filter (\<lambda>x. log_sd_card_id x = j \<and> log_returned_at x = None) ls)"
  by (induction ls) (auto simp: set_log_returned_def)

lemma checkout_db:
  "snd (snd (checkout e u req d)) = d \<or>
   (\<exists>c n. c \<in> set (sd_cards d) \<and> card_status c = ''available'' \<and>
      log_sd_card_id n = card_id c \<and> log_returned_at n = None \<and>
      log_id n = fresh_id (map log_id (sd_card_logs d)) \<and>
      snd (snd (checkout e u req d)) =
        d\<lparr>sd_cards := set_card_status (card_id c) ''checked_out'' (sd_cards d),
          sd_card_logs := sd_card_logs d @ [n]\<rparr>)"
proof (cases "query_get_text e card_id (sd_cards d) (form req ''sd_card_id'')")
  case None
  then show ?thesis by (simp add: checkout_def)
next
  case (Some c)
  then have c: "c \<in> set (sd_cards d)" by (rule query_get_text_SomeD)
  show ?thesis
  proof (cases "card_status c = ''available''")
    case False
    with Some show ?thesis by (simp add: checkout_def)
  next
    case True
    show ?thesis
    proof (cases "int_if_set (or_none (form req ''event_id''))")
      case None
      with Some True show ?thesis by (simp add: checkout_def)
    next
      case ev: (Some ev)
      show ?thesis
      proof (cases "int_if_set (or_none (form req ''session_id''))")
        case None
        with Some True ev show ?thesis by (simp add: checkout_def)
      next
        case se: (Some se)
        show ?thesis
        proof (cases "opt_in_int64 ev \<and> opt_in_int64 se")
          case False
          with Some True ev se show ?thesis by (simp add: checkout_def)
        next
          case rng: True
        let ?n = "\<lparr>log_id = fresh_id (map log_id (sd_card_logs d)),
                   log_sd_card_id = card_id c, log_user_id = user_id u,
                   log_event_id = ev, log_session_id = se,
                   log_purpose = Some (form_get (form req) ''purpose'' []),
                   log_checked_out_at = now e, log_returned_at = None\<rparr>"
        have "snd (snd (checkout e u req d)) =
                d\<lparr>sd_cards := set_card_status (card_id c) ''checked_out'' (sd_cards d),
                  sd_card_logs := sd_card_logs d @ [?n]\<rparr>"
          using Some True ev se rng by (simp add: checkout_def)
        moreover have "log_sd_card_id ?n = card_id c \<and> log_returned_at ?n = None \<and>
                       log_id ?n = fresh_id (map log_id (sd_card_logs d))" by simp
        ultimately show ?thesis using c True by blast
        qed
      qed
    qed
  qed
qed

lemma return_db:
  "snd (snd (return_card e u req d)) = d \<or>
   (\<exists>l c. l \<in> set (sd_card_logs d) \<and> log_returned_at l = None \<and>
      c \<in> set (sd_cards d) \<and> card_id c = log_sd_card_id l \<and>
      snd (snd (return_card e u req d)) =
        d\<lparr>sd_card_logs := set_log_returned (log_id l) (now e) (sd_card_logs d),
          sd_cards := set_card_status (card_id c) ''available'' (sd_cards d)\<rparr>)"
proof (cases "query_get_text e log_id (sd_card_logs d) (form req ''log_id'')")
  case None
  then show ?thesis by (simp add: return_card_def)
next
  case (Some l)
  then have l: "l \<in> set (sd_card_logs d)" by (rule query_get_text_SomeD)
  show ?thesis
  proof (cases "log_returned_at l")
    case (Some y)
    with \<open>query_get_text e log_id (sd_card_logs d) (form req ''log_id'') = Some l\<close>
    show ?thesis by (simp add: return_card_def)
  next
    case True: None
    note Some = \<open>query_get_text e log_id (sd_card_logs d) (form req ''log_id'') = Some l\<close>
    show ?thesis
    proof (cases "query_get card_id (sd_cards d) (Some (log_sd_card_id l))")
      case (Inl err)
      with Some True show ?thesis by (simp add: return_card_def)
    next
      case (Inr oc)
      show ?thesis
      proof (cases oc)
        case None
        with Some True Inr show ?thesis by (simp add: return_card_def)
      next
        case c: (Some c)
        with Inr have q: "query_get card_id (sd_cards d) (Some (log_sd_card_id l)) = Inr (Some c)"
          by simp
        from query_get_SomeD [OF q] have cc: "c \<in> set (sd_cards d)" "card_id c = log_sd_card_id l"
          by simp_all
        have "snd (snd (return_card e u req d)) =
                d\<lparr>sd_card_logs := set_log_returned (log_id l) (now e) (sd_card_logs d),
                  sd_cards := set_card_status (card_id c) ''available'' (sd_cards d)\<rparr>"
          using Some True q by (simp add: return_card_def)
        with l True cc show ?thesis by blast
      qed
    qed
  qed
qed

lemma checkout_step_inv:
  assumes inv: "custody_inv d"
      and c: "c \<in> set (sd_cards d)" and av: "card_status c = ''available''"
      and n: "log_sd_card_id n = card_id c" "log_returned_at n = None"
             "log_id n = fresh_id (map log_id (sd_card_logs d))"
  shows "custody_inv (d\<lparr>sd_cards := set_card_status (card_id c) ''checked_out'' (sd_cards d),
                        sd_card_logs := sd_card_logs d @ [n]\<rparr>)"
proof -
  define d' where
    "d' = d\<lparr>sd_cards := set_card_status (card_id c) ''checked_out'' (sd_cards d),
            sd_card_logs := sd_card_logs d @ [n]\<rparr>"
  have dist: "distinct (map log_id (sd_card_logs d))"
    using inv by (simp add: custody_inv_def)
  have cnt: "length (open_logs d (card_id x)) = (if card_status x = ''checked_out'' then 1 else 0)"
    if "x \<in> set (sd_cards d)" for x
    using inv that by (simp add: custody_inv_def)
  have c0: "open_logs d (card_id c) = []"
    using cnt [OF c] av by simp
  have ol: "open_logs d' j = open_logs d j @ (if j = card_id c then [n] else [])" for j
    using n(1,2) by (auto simp: open_logs_def d'_def)
  have cs: "sd_cards d' = set_card_status (card_id c) ''checked_out'' (sd_cards d)"
    by (simp add: d'_def)
  have d1: "distinct (map log_id (sd_card_logs d'))"
    using dist fresh_id_notin [of "map log_id (sd_card_logs d)"] n(3) by (simp add: d'_def)
  have d2: "length (open_logs d' (card_id x)) = (if card_status x = ''checked_out'' then 1 else 0)"
    if "x \<in> set (sd_cards d')" for x
  proof -
    from that obtain x0 where x0: "x0 \<in> set (sd_cards d)"
      "(card_id x0 = card_id c \<and> x = x0\<lparr>card_status := ''checked_out''\<rparr>) \<or>
       (card_id x0 \<noteq> card_id c \<and> x = x0)"
      unfolding cs by (blast dest: set_card_status_cases)
    show ?thesis
    proof (cases "card_id x0 = card_id c")
      case True
      with x0(2) have x: "x = x0\<lparr>card_status := ''checked_out''\<rparr>" by simp
      show ?thesis unfolding ol using x True c0 by simp
    next
      case False
      with x0(2) have x: "x = x0" by simp
      show ?thesis unfolding ol using x False cnt [OF x0(1)] by simp
    qed
  qed
  have "custody_inv d'"
    unfolding custody_inv_def using d1 d2 by blast
  then show ?thesis unfolding d'_def .
qed

lemma return_step_inv:
  assumes inv: "custody_inv d"
      and l: "l \<in> set (sd_card_logs d)" and op: "log_returned_at l = None"
      and c: "c \<in> set (sd_cards d)" and cl: "card_id c = log_sd_card_id l"
  shows "custody_inv (d\<lparr>sd_card_logs := set_log_returned (log_id l) t (sd_card_logs d),
                        sd_cards := set_card_status (card_id c) ''available'' (sd_cards d)\<rparr>)"
proof -
  define d' where
    "d' = d\<lparr>sd_card_logs := set_log_returned (log_id l) t (sd_card_logs d),
            sd_cards := set_card_status (card_id c) ''available'' (sd_cards d)\<rparr>"
  have dist: "distinct (map log_id (sd_card_logs d))"
    using inv by (simp add: custody_inv_def)
  have cnt: "length (open_logs d (card_id x)) = (if card_status x = ''checked_out'' then 1 else 0)"
    if "x \<in> set (sd_cards d)" for x
    using inv that by (simp add: custody_inv_def)
  have lin: "l \<in> set (open_logs d (card_id c))"
    using l op cl by (simp add: open_logs_def)
  then have "length (open_logs d (card_id c)) \<noteq> 0" by auto
  with cnt [OF c] have len1: "length (open_logs d (card_id c)) = 1"
    by (simp split: if_splits)
  then obtain a where a: "open_logs d (card_id c) = [a]"
    by (cases "open_logs d (card_id c)") auto
  with lin have single: "open_logs d (card_id c) = [l]" by simp
  have ol: "open_logs d' j = filter (\<lambda>x. log_id x \<noteq> log_id l) (open_logs d j)" for j
    by (simp add: open_logs_def d'_def open_after_return)
  have cs: "sd_cards d' = set_card_status (card_id c) ''available'' (sd_cards d)"
    by (simp add: d'_def)
  have same: "open_logs d' (card_id c) = []"
    unfolding ol single by simp
  have other: "open_logs d' j = open_logs d j" if j: "j \<noteq> card_id c" for j
  proof -
    have "\<forall>x \<in> set (open_logs d j). log_id x \<noteq> log_id l"
    proof
      fix x assume x: "x \<in> set (open_logs d j)"
      then have xs: "x \<in> set (sd_card_logs d)" and xj: "log_sd_card_id x = j"
        by (simp_all add: open_logs_def)
      show "log_id x \<noteq> log_id l"
      proof
        assume "log_id x = log_id l"
        with dist xs l have "x = l" by (rule distinct_map_eq)
        with xj cl j show False by simp
      qed
    qed
    then show ?thesis unfolding ol by simp
  qed
  have d1: "distinct (map log_id (sd_card_logs d'))"
    using dist by (simp add: d'_def set_log_returned_ids)
  have d2: "length (open_logs d' (card_id x)) = (if card_status x = ''checked_out'' then 1 else 0)"
    if "x \<in> set (sd_cards d')" for x
  proof -
    from that obtain x0 where x0: "x0 \<in> set (sd_cards d)"
      "(card_id x0 = card_id c \<and> x = x0\<lparr>card_status := ''available''\<rparr>) \<or>
       (card_id x0 \<noteq> card_id c \<and> x = x0)"
      unfolding cs by (blast dest: set_card_status_cases)
    show ?thesis
    proof (cases "card_id x0 = card_id c")
      case True
      with x0(2) have x: "x = x0\<lparr>card_status := ''available''\<rparr>" by simp
      show ?thesis using x True same by simp
    next
      case False
      with x0(2) have x: "x = x0" by simp
      show ?thesis using x other [OF False] cnt [OF x0(1)] by simp
    qed
  qed
  have "custody_inv d'"
    unfolding custody_inv_def using d1 d2 by blast
  then show ?thesis unfolding d'_def .
qed

lemma checkout_inv:
  assumes "custody_inv d"
  shows "custody_inv (snd (snd (checkout e u req d)))"
  using checkout_db [of e u req d]
proof
  assume "snd (snd (checkout e u req d)) = d"
  with assms show ?thesis by simp
next
  assume "\<exists>c n. c \<in> set (sd_cards d) \<and> card_status c = ''available'' \<and>
      log_sd_card_id n = card_id c \<and> log_returned_at n = None \<and>
      log_id n = fresh_id (map log_id (sd_card_logs d)) \<and>
      snd (snd (checkout e u req d)) =
        d\<lparr>sd_cards := set_card_status (card_id c) ''checked_out'' (sd_cards d),
          sd_card_logs := sd_card_logs d @ [n]\<rparr>"
  then obtain c n where c: "c \<in> set (sd_cards d)" "card_status c = ''available''"
    and n: "log_sd_card_id n = card_id c" "log_returned_at n = None"
           "log_id n = fresh_id (map log_id (sd_card_logs d))"
    and r: "snd (snd (checkout e u req d)) =
        d\<lparr>sd_cards := set_card_status (card_id c) ''checked_out'' (sd_cards d),
          sd_card_logs := sd_card_logs d @ [n]\<rparr>"
    by blast
  show ?thesis unfolding r using assms c n by (rule checkout_step_inv)
qed

lemma return_inv:
  assumes "custody_inv d"
  shows "custody_inv (snd (snd (return_card e u req d)))"
  using return_db [of e u req d]
proof
  assume "snd (snd (return_card e u req d)) = d"
  with assms show ?thesis by simp
next
  assume "\<exists>l c. l \<in> set (sd_card_logs d) \<and> log_returned_at l = None \<and>
      c \<in> set (sd_cards d) \<and> card_id c = log_sd_card_id l \<and>
      snd (snd (return_card e u req d)) =
        d\<lparr>sd_card_logs := set_log_returned (log_id l) (now e) (sd_card_logs d),
          sd_cards := set_card_status (card_id c) ''available'' (sd_cards d)\<rparr>"
  then obtain l c where l: "l \<in> set (sd_card_logs d)" "log_returned_at l = None"
    and c: "c \<in> set (sd_cards d)" "card_id c = log_sd_card_id l"
    and r: "snd (snd (return_card e u req d)) =
        d\<lparr>sd_card_logs := set_log_returned (log_id l) (now e) (sd_card_logs d),
          sd_cards := set_card_status (card_id c) ''available'' (sd_cards d)\<rparr>"
    by blast
  show ?thesis unfolding r using assms l c by (rule return_step_inv)
qed

lemma sd_cards_view_inv:
  assumes "custody_inv d" and "custody_request req"
  shows "custody_inv (snd (snd (sd_cards_view e u req d)))"
proof -
  from assms(2) have m: "http_method req = ''POST''"
    and a: "form req ''action'' = Some ''checkout'' \<or> form req ''action'' = Some ''return''"
    by (simp_all add: custody_request_def)
  from a show ?thesis
  proof
    assume "form req ''action'' = Some ''checkout''"
    with m have "sd_cards_view e u req d = checkout e u req d"
      by (simp add: sd_cards_view_def)
    with assms(1) show ?thesis by (simp add: checkout_inv)
  next
    assume "form req ''action'' = Some ''return''"
    with m have "sd_cards_view e u req d = return_card e u req d"
      by (simp add: sd_cards_view_def)
    with assms(1) show ?thesis by (simp add: return_inv)
  qed
qed

lemma run_sd_cards_inv:
  "custody_inv d \<Longrightarrow> \<forall>s \<in> set steps. custody_request (snd (snd s)) \<Longrightarrow>
   custody_inv (run_sd_cards steps d)"
proof (induction steps arbitrary: d)
  case Nil
  then show ?case by simp
next
  case (Cons s steps)
  obtain e u req where s: "s = (e, u, req)" by (cases s)
  from Cons.prems(2) s have r: "custody_request req" by simp
  have "custody_inv (snd (snd (sd_cards_view e u req d)))"
    using Cons.prems(1) r by (rule sd_cards_view_inv)
  moreover from Cons.prems(2) have "\<forall>s \<in> set steps. custody_request (snd (snd s))" by simp
  ultimately have "custody_inv (run_sd_cards steps (snd (snd (sd_cards_view e u req d))))"
    by (rule Cons.IH)
  then show ?case by (simp add: s)
qed

text \<open>
  C1, as the code has it. Start from a data store in which log ids are unique and every
  card has exactly one open log when its status is \<^verbatim>\<open>checked_out\<close> and no open log
  otherwise. After any sequence of checkout and return requests the same holds again, and
  so for every card the status is \<^verbatim>\<open>checked_out\<close> if and only if exactly one log of the
  card is open. A single checkout or return is the sequence of length one.
\<close>

theorem custody_preserved:
  assumes "custody_inv d" and "\<forall>s \<in> set steps. custody_request (snd (snd s))"
  shows "custody_inv (run_sd_cards steps d) \<and> custody_iff (run_sd_cards steps d)"
proof -
  have "custody_inv (run_sd_cards steps d)"
    using assms by (rule run_sd_cards_inv)
  then show ?thesis by (simp add: custody_inv_iff)
qed

theorem custody_preserved_witness:
  "custody_inv (empty_db\<lparr>sd_cards := [card1 ''available'']\<rparr>) \<and>
   custody_iff (run_sd_cards
     [(sample_env 5, sam, post [(''action'', ''checkout''), (''sd_card_id'', ''1'')]),
      (sample_env 6, sam, post [(''action'', ''return''), (''log_id'', ''1'')]),
      (sample_env 7, kim, post [(''action'', ''checkout''), (''sd_card_id'', ''1'')])]
     (empty_db\<lparr>sd_cards := [card1 ''available'']\<rparr>)) \<and>
   map card_status (sd_cards (run_sd_cards
     [(sample_env 5, sam, post [(''action'', ''checkout''), (''sd_card_id'', ''1'')]),
      (sample_env 6, sam, post [(''action'', ''return''), (''log_id'', ''1'')]),
      (sample_env 7, kim, post [(''action'', ''checkout''), (''sd_card_id'', ''1'')])]
     (empty_db\<lparr>sd_cards := [card1 ''available'']\<rparr>))) = [''checked_out'']"
proof -
  let ?d = "empty_db\<lparr>sd_cards := [card1 ''available'']\<rparr>"
  let ?steps = "[(sample_env 5, sam, post [(''action'', ''checkout''), (''sd_card_id'', ''1'')]),
      (sample_env 6, sam, post [(''action'', ''return''), (''log_id'', ''1'')]),
      (sample_env 7, kim, post [(''action'', ''checkout''), (''sd_card_id'', ''1'')])]"
  have i: "custody_inv ?d" by code_simp
  have r: "\<forall>s \<in> set ?steps. custody_request (snd (snd s))" by code_simp
  have v: "map card_status (sd_cards (run_sd_cards ?steps ?d)) = [''checked_out'']" by code_simp
  from custody_preserved [OF i r] i v show ?thesis by blast
qed

text \<open>
  The claim as it is written fails: the condition "checked out if and only if exactly one
  open log" alone is not kept. It holds of a data store where an available card has two
  open logs, and not after a checkout of that card, which is then checked out with three.
\<close>

theorem custody_iff_counterexample:
  "custody_iff (empty_db\<lparr>sd_cards := [card1 ''available''],
                         sd_card_logs := [log_of 1 None, log_of 2 None]\<rparr>) \<and>
   \<not> custody_iff (snd (snd (sd_cards_view (sample_env 5) sam
        (post [(''action'', ''checkout''), (''sd_card_id'', ''1'')])
        (empty_db\<lparr>sd_cards := [card1 ''available''],
                  sd_card_logs := [log_of 1 None, log_of 2 None]\<rparr>))))"
  by code_simp

end
